theory Spec2Isabelle
  imports Complex_Main "HOL-Library.AList"
begin

section \<open>JavaScript values used by the exporter\<close>

text \<open>
  A JavaScript number is either a number or \<open>NaN\<close> (infinities cannot come out of JSON or
  of the arithmetic done here). Numbers are idealised as reals: \<open>getTime() / 1000\<close> is the
  exact quotient. An optional or possibly missing JSON field is an \<open>option\<close>.
\<close>

datatype jsnum = Num real | NaN

text \<open>A thrown value: an object that is \<open>instanceof Error\<close> with its message, or anything else.\<close>

datatype exn = JsError string | NonError string

fun exn_string :: "exn \<Rightarrow> string" where
  "exn_string (JsError msg) = ''Error: '' @ msg"
| "exn_string (NonError v) = v"

text \<open>\<open>a || b\<close> on an optional string: the empty string and \<open>undefined\<close> are falsy.\<close>

fun str_or :: "string option \<Rightarrow> string \<Rightarrow> string" where
  "str_or None d = d"
| "str_or (Some a) d = (if a = [] then d else a)"

text \<open>\<open>a || b\<close> on an optional number: \<open>0\<close>, \<open>NaN\<close> and \<open>undefined\<close> are falsy.\<close>

fun num_or :: "jsnum option \<Rightarrow> jsnum \<Rightarrow> jsnum" where
  "num_or None d = d"
| "num_or (Some NaN) d = d"
| "num_or (Some (Num x)) d = (if x = 0 then d else Num x)"

text \<open>\<open>x > 0\<close>: every comparison with \<open>NaN\<close> is false.\<close>

fun gt_zero :: "jsnum \<Rightarrow> bool" where
  "gt_zero (Num x) = (0 < x)"
| "gt_zero NaN = False"

text \<open>\<open>x / 1000\<close>.\<close>

fun div_1000 :: "jsnum \<Rightarrow> jsnum" where
  "div_1000 (Num x) = Num (x / 1000)"
| "div_1000 NaN = NaN"

text \<open>Decimal rendering of a natural number inside a template string.\<close>

fun show_nat :: "nat \<Rightarrow> string" where
  "show_nat n =
     (if n < 10 then [char_of (48 + n)]
      else show_nat (n div 10) @ [char_of (48 + n mod 10)])"

declare show_nat.simps [simp del]

section \<open>The instruments of metrics.ts\<close>

text \<open>
  Every instrument of prom-client keeps a \<open>hashMap\<close>, a JavaScript object from the hash of
  a label set to the value. Property order of such an object is insertion order, an
  assignment to an existing key keeps its place, and \<open>delete\<close> takes the key out; that is
  an association list under \<open>AList.update\<close> and \<open>AList.delete\<close>. The key is the list of
  label values in the order of \<open>labelNames\<close>. The text exposition of the registry lists
  each instrument's entries in this order, so equal hash maps serialise equally.
\<close>

type_synonym hashMap = "(string list \<times> jsnum) list"
type_synonym counterMap = "(string list \<times> nat) list"

definition EXPORTER_INFO_labelNames :: "string list" where
  "EXPORTER_INFO_labelNames = [''version'', ''ollama_host'', ''node_version'']"

definition OLLAMA_VERSION_INFO_labelNames :: "string list" where
  "OLLAMA_VERSION_INFO_labelNames = [''version'']"

definition OLLAMA_MODEL_INFO_labelNames :: "string list" where
  "OLLAMA_MODEL_INFO_labelNames =
     [''model_name'', ''family'', ''format'', ''parameter_size'', ''quantization_level'',
      ''parent_model'']"

definition OLLAMA_MODEL_SIZE_BYTES_labelNames :: "string list" where
  "OLLAMA_MODEL_SIZE_BYTES_labelNames = [''model_name'']"

definition OLLAMA_MODEL_MODIFIED_TIMESTAMP_labelNames :: "string list" where
  "OLLAMA_MODEL_MODIFIED_TIMESTAMP_labelNames = [''model_name'']"

definition OLLAMA_RUNNING_MODELS_labelNames :: "string list" where
  "OLLAMA_RUNNING_MODELS_labelNames = [''model_name'']"

definition OLLAMA_MODEL_MEMORY_BYTES_labelNames :: "string list" where
  "OLLAMA_MODEL_MEMORY_BYTES_labelNames = [''model_name'']"

definition OLLAMA_EXPORTER_SCRAPES_TOTAL_labelNames :: "string list" where
  "OLLAMA_EXPORTER_SCRAPES_TOTAL_labelNames = [''status'']"

text \<open>
  prom-client's \<open>getLabels(labelNames, args)\<close>, called by \<open>labels(...args)\<close> and by
  \<open>remove(...args)\<close> with positional label values: it throws an \<open>Error\<close> unless there is
  exactly one value for each label name.
\<close>

definition getLabels :: "string list \<Rightarrow> string list \<Rightarrow> exn + string list" where
  "getLabels labelNames args =
     (if length labelNames \<noteq> length args then Inl (JsError ''Invalid number of arguments'')
      else Inr args)"

text \<open>\<open>gauge.labels(...args).set(value)\<close>.\<close>

definition gauge_labels_set :: "string list \<Rightarrow> string list \<Rightarrow> jsnum \<Rightarrow> hashMap \<Rightarrow> exn + hashMap" where
  "gauge_labels_set labelNames args v h =
     (case getLabels labelNames args of
        Inl e \<Rightarrow> Inl e
      | Inr k \<Rightarrow> Inr (AList.update k v h))"

text \<open>\<open>gauge.remove(...args)\<close>: deletes the entry of exactly this label set.\<close>

definition gauge_remove :: "string list \<Rightarrow> string list \<Rightarrow> hashMap \<Rightarrow> exn + hashMap" where
  "gauge_remove labelNames args h =
     (case getLabels labelNames args of
        Inl e \<Rightarrow> Inl e
      | Inr k \<Rightarrow> Inr (AList.delete k h))"

text \<open>\<open>gauge.set(value)\<close> on an instrument without labels: the one entry of the empty label set.\<close>

definition gauge_set :: "jsnum \<Rightarrow> hashMap \<Rightarrow> hashMap" where
  "gauge_set v h = AList.update [] v h"

text \<open>\<open>counter.labels(...args).inc()\<close>.\<close>

definition counter_labels_inc :: "string list \<Rightarrow> string list \<Rightarrow> counterMap \<Rightarrow> exn + counterMap" where
  "counter_labels_inc labelNames args h =
     (case getLabels labelNames args of
        Inl e \<Rightarrow> Inl e
      | Inr k \<Rightarrow> Inr (AList.update k (case map_of h k of None \<Rightarrow> 1 | Some n \<Rightarrow> n + 1) h))"

section \<open>The data of exporter.ts and http-client.ts\<close>

text \<open>
  The interfaces of exporter.ts. A response has the shape its interface declares; a field
  that the code reads under \<open>||\<close> may be missing, which is \<open>None\<close>. The fields \<open>name\<close>,
  \<open>size\<close> and \<open>models\<close> occur in more than one interface or clash with a constant of the
  logic, and carry the name of their interface in front; \<open>method\<close> is \<open>http_method\<close>.
\<close>

record OllamaModelDetails =
  family :: "string option"
  format :: "string option"
  parameter_size :: "string option"
  quantization_level :: "string option"
  parent_model :: "string option"

record OllamaModel =
  model_name :: "string option"
  model_size :: "jsnum option"
  modified_at :: "string option"
  details :: "OllamaModelDetails option"

record OllamaRunningModel =
  running_name :: "string option"
  size_vram :: "jsnum option"

record OllamaVersionResponse =
  version :: "string option"

record OllamaTagsResponse =
  tags_models :: "OllamaModel list option"

record OllamaPsResponse =
  ps_models :: "OllamaRunningModel list option"

text \<open>
  An \<open>AbortSignal\<close>, with the time (in ms after the request starts) at which it is aborted,
  if ever. The signal of the \<open>AbortController\<close> that \<open>FetchHttpClient.request\<close> creates is
  aborted by its timer, when one was armed; a caller's signal is aborted when the caller
  decides.
\<close>

datatype AbortSignal = ControllerSignal "nat option" | CallerSignal "nat option"

record HttpRequestOptions =
  http_method :: "string option"
  headers :: "(string \<times> string) list option"
  body :: "string option"
  timeout :: "nat option"
  signal :: "AbortSignal option"

text \<open>
  \<open>HttpResponse<T>\<close>; \<open>json()\<close> resolves to the parsed body (\<open>None\<close> is a body that parses to
  \<open>null\<close>) or rejects.
\<close>

record 'a HttpResponse =
  ok :: bool
  status :: nat
  statusText :: string
  json :: "exn + 'a option"

text \<open>The \<open>RequestInit\<close> object handed to \<open>fetch\<close>.\<close>

record RequestInit =
  init_method :: string
  init_signal :: AbortSignal
  init_headers :: "(string \<times> string) list"
  init_body :: "string option"

datatype LogLevel = DEBUG | INFO | WARNING | ERROR

text \<open>
  The exporter object together with the module-level instruments it writes, the calls made
  to the logger and the URLs requested from the HTTP client.
\<close>

record state =
  baseUrl :: string
  apiTimeout :: nat
  lastModels :: "(string \<times> OllamaModel) list"
  lastRunningModels :: "string list"
  EXPORTER_INFO :: hashMap
  OLLAMA_UP :: hashMap
  OLLAMA_VERSION_INFO :: hashMap
  OLLAMA_MODELS_TOTAL :: hashMap
  OLLAMA_MODEL_INFO :: hashMap
  OLLAMA_MODEL_SIZE_BYTES :: hashMap
  OLLAMA_MODEL_MODIFIED_TIMESTAMP :: hashMap
  OLLAMA_RUNNING_MODELS :: hashMap
  OLLAMA_MODEL_MEMORY_BYTES :: hashMap
  OLLAMA_EXPORTER_SCRAPE_DURATION :: "(string \<times> real) list"
  OLLAMA_EXPORTER_SCRAPES_TOTAL :: counterMap
  OLLAMA_EXPORTER_LAST_SCRAPE_TIMESTAMP :: hashMap
  logged :: "(LogLevel \<times> string) list"
  requestHistory :: "string list"

text \<open>
  What one scrape cycle meets outside the exporter: the HTTP client (one field for each
  instance of the generic \<open>request<T>\<close>), the runtime's date parser (the time value in ms of
  \<open>new Date(s)\<close>, \<open>None\<close> for an invalid date), the clock and the two measured durations.
\<close>

record world =
  request_version :: "string \<Rightarrow> HttpRequestOptions \<Rightarrow> exn + OllamaVersionResponse HttpResponse option"
  request_tags :: "string \<Rightarrow> HttpRequestOptions \<Rightarrow> exn + OllamaTagsResponse HttpResponse option"
  request_ps :: "string \<Rightarrow> HttpRequestOptions \<Rightarrow> exn + OllamaPsResponse HttpResponse option"
  Date_getTime :: "string \<Rightarrow> real option"
  Date_now :: real
  elapsed_list_models :: real
  elapsed_list_running :: real

definition logger :: "LogLevel \<Rightarrow> string \<Rightarrow> state \<Rightarrow> state" where
  "logger lvl msg s = s\<lparr>logged := logged s @ [(lvl, msg)]\<rparr>"

section \<open>http-client.ts\<close>

text \<open>
  \<open>FetchHttpClient.request\<close> over the \<open>fetch\<close> function given to the constructor. A timer
  is armed when \<open>options.timeout\<close> is truthy; its only effect is to abort the controller.
  \<open>fetch\<close> resolves to a response or rejects; every rejection is turned into \<open>null\<close>.
\<close>

definition fetchOptions :: "HttpRequestOptions \<Rightarrow> RequestInit" where
  "fetchOptions options =
     (let timer = (case timeout options of None \<Rightarrow> None | Some t \<Rightarrow> if t = 0 then None else Some t);
          controller_signal = ControllerSignal timer
      in \<lparr>init_method = str_or (http_method options) ''GET'',
          init_signal = (case signal options of Some sg \<Rightarrow> sg | None \<Rightarrow> controller_signal),
          init_headers = (case headers options of Some hs \<Rightarrow> hs | None \<Rightarrow> []),
          init_body = (case body options of None \<Rightarrow> None | Some b \<Rightarrow> if b = [] then None else Some b)\<rparr>)"

definition FetchHttpClient_request ::
  "(string \<Rightarrow> RequestInit \<Rightarrow> exn + 'a HttpResponse) \<Rightarrow> string \<Rightarrow> HttpRequestOptions \<Rightarrow> 'a HttpResponse option" where
  "FetchHttpClient_request fetchFn url options =
     (case fetchFn url (fetchOptions options) of
        Inl e \<Rightarrow> None
      | Inr response \<Rightarrow>
          Some \<lparr>ok = ok response, status = status response, statusText = statusText response,
                json = json response\<rparr>)"

text \<open>
  The runtime's \<open>fetch\<close> against a server that is unreachable or replies after a latency
  (in ms): it rejects when the connection fails, and when the signal it was given is
  aborted before the reply is there; a reply due at the very instant of the abort is lost.
  This is the part of the platform that the statements about timeouts need; the code of
  http-client.ts takes any fetch function.
\<close>

datatype 'a server = Unreachable | Replies nat "'a HttpResponse"

fun aborted_at :: "AbortSignal \<Rightarrow> nat option" where
  "aborted_at (ControllerSignal t) = t"
| "aborted_at (CallerSignal t) = t"

definition runtime_fetch :: "'a server \<Rightarrow> string \<Rightarrow> RequestInit \<Rightarrow> exn + 'a HttpResponse" where
  "runtime_fetch srv url init =
     (case srv of
        Unreachable \<Rightarrow> Inl (JsError ''fetch failed'')
      | Replies latency response \<Rightarrow>
          (case aborted_at (init_signal init) of
             None \<Rightarrow> Inr response
           | Some t \<Rightarrow>
               if t \<le> latency then Inl (JsError ''This operation was aborted'')
               else Inr response))"

section \<open>exporter.ts\<close>

definition VERSION :: string where
  "VERSION = ''1.0.0''"

text \<open>
  The instruments as metrics.ts creates them: an instrument without labels starts with its
  one entry at 0, a labelled one starts empty.
\<close>

definition OllamaExporter :: "string \<Rightarrow> nat \<Rightarrow> string \<Rightarrow> exn + state" where
  "OllamaExporter ollamaHost apiTimeout_arg process_version =
     (case gauge_labels_set EXPORTER_INFO_labelNames [VERSION, ollamaHost, process_version] (Num 1) [] of
        Inl e \<Rightarrow> Inl e
      | Inr info \<Rightarrow>
          Inr \<lparr>baseUrl = ''http://'' @ ollamaHost @ ''/api'',
               apiTimeout = apiTimeout_arg * 1000,
               lastModels = [],
               lastRunningModels = [],
               EXPORTER_INFO = info,
               OLLAMA_UP = [([], Num 0)],
               OLLAMA_VERSION_INFO = [],
               OLLAMA_MODELS_TOTAL = [([], Num 0)],
               OLLAMA_MODEL_INFO = [],
               OLLAMA_MODEL_SIZE_BYTES = [],
               OLLAMA_MODEL_MODIFIED_TIMESTAMP = [],
               OLLAMA_RUNNING_MODELS = [],
               OLLAMA_MODEL_MEMORY_BYTES = [],
               OLLAMA_EXPORTER_SCRAPE_DURATION = [],
               OLLAMA_EXPORTER_SCRAPES_TOTAL = [],
               OLLAMA_EXPORTER_LAST_SCRAPE_TIMESTAMP = [([], Num 0)],
               logged = [],
               requestHistory = []\<rparr>)"

text \<open>
  The \<open>try\<close> block of \<open>apiRequest\<close>. \<open>data\<close> is the JSON text of a truthy payload. The call
  of the HTTP client is recorded in \<open>requestHistory\<close>.
\<close>

definition apiRequest_try ::
  "(string \<Rightarrow> HttpRequestOptions \<Rightarrow> exn + 'a HttpResponse option) \<Rightarrow> string \<Rightarrow> string \<Rightarrow> string option
     \<Rightarrow> state \<Rightarrow> (exn + 'a option) \<times> state" where
  "apiRequest_try request endpoint method_arg data s =
     (let url = baseUrl s @ ''/'' @ endpoint;
          hdrs = [(''Content-Type'', ''application/json'')];
          s1 = s\<lparr>requestHistory := requestHistory s @ [url]\<rparr>
      in case request url \<lparr>http_method = Some method_arg, headers = Some hdrs, body = data,
                           timeout = Some (apiTimeout s), signal = None\<rparr> of
           Inl e \<Rightarrow> (Inl e, s1)
         | Inr None \<Rightarrow> (Inr None, logger ERROR (''API request failed for '' @ endpoint) s1)
         | Inr (Some response) \<Rightarrow>
             if \<not> ok response then
               (Inr None,
                logger ERROR (''API request failed: '' @ show_nat (status response) @ '' ''
                              @ statusText response) s1)
             else (case json response of
                     Inl e \<Rightarrow> (Inl e, s1)
                   | Inr v \<Rightarrow> (Inr v, s1)))"

text \<open>\<open>apiRequest\<close>: the \<open>try\<close> block under its \<open>catch\<close>.\<close>

definition apiRequest ::
  "(string \<Rightarrow> HttpRequestOptions \<Rightarrow> exn + 'a HttpResponse option) \<Rightarrow> string \<Rightarrow> string \<Rightarrow> string option
     \<Rightarrow> state \<Rightarrow> (exn + 'a option) \<times> state" where
  "apiRequest request endpoint method_arg data s =
     (case apiRequest_try request endpoint method_arg data s of
        (Inl (JsError msg), s1) \<Rightarrow>
          (Inr None, logger ERROR (''API request error for '' @ endpoint @ '': '' @ msg) s1)
      | (Inl (NonError v), s1) \<Rightarrow> (Inr None, s1)
      | (Inr r, s1) \<Rightarrow> (Inr r, s1))"

definition checkOllamaHealth :: "world \<Rightarrow> state \<Rightarrow> (exn + bool) \<times> state" where
  "checkOllamaHealth w s =
     (case apiRequest (request_version w) ''version'' ''GET'' None s of
        (Inl e, s1) \<Rightarrow> (Inl e, s1)
      | (Inr None, s1) \<Rightarrow> (Inr False, s1)
      | (Inr (Some versionData), s1) \<Rightarrow>
          (case gauge_labels_set OLLAMA_VERSION_INFO_labelNames
                  [str_or (version versionData) ''unknown''] (Num 1) (OLLAMA_VERSION_INFO s1) of
             Inl e \<Rightarrow> (Inl e, s1)
           | Inr h \<Rightarrow> (Inr True, s1\<lparr>OLLAMA_VERSION_INFO := h\<rparr>)))"

subsection \<open>updateModelMetrics\<close>

text \<open>The body of the loop over \<open>this.lastModels.keys()\<close>.\<close>

definition removeOldModel :: "string list \<Rightarrow> string \<Rightarrow> state \<Rightarrow> exn option \<times> state" where
  "removeOldModel currentModels oldModel s =
     (if oldModel \<notin> set currentModels then
        (case gauge_remove OLLAMA_MODEL_SIZE_BYTES_labelNames [oldModel] (OLLAMA_MODEL_SIZE_BYTES s) of
           Inl e \<Rightarrow> (Some e, s)
         | Inr h1 \<Rightarrow>
             let s1 = s\<lparr>OLLAMA_MODEL_SIZE_BYTES := h1\<rparr> in
             (case gauge_remove OLLAMA_MODEL_MODIFIED_TIMESTAMP_labelNames [oldModel]
                     (OLLAMA_MODEL_MODIFIED_TIMESTAMP s1) of
                Inl e \<Rightarrow> (Some e, s1)
              | Inr h2 \<Rightarrow>
                  let s2 = s1\<lparr>OLLAMA_MODEL_MODIFIED_TIMESTAMP := h2\<rparr> in
                  (case gauge_remove OLLAMA_MODEL_INFO_labelNames [oldModel] (OLLAMA_MODEL_INFO s2) of
                     Inl e \<Rightarrow> (Some e, s2)
                   | Inr h3 \<Rightarrow> (None, s2\<lparr>OLLAMA_MODEL_INFO := h3\<rparr>))))
      else (None, s))"

fun removeOldModels :: "string list \<Rightarrow> string list \<Rightarrow> state \<Rightarrow> exn option \<times> state" where
  "removeOldModels currentModels [] s = (None, s)"
| "removeOldModels currentModels (oldModel # rest) s =
     (case removeOldModel currentModels oldModel s of
        (Some e, s1) \<Rightarrow> (Some e, s1)
      | (None, s1) \<Rightarrow> removeOldModels currentModels rest s1)"

definition no_details :: OllamaModelDetails where
  "no_details = \<lparr>family = None, format = None, parameter_size = None, quantization_level = None,
                 parent_model = None\<rparr>"

text \<open>The time value of \<open>new Date(modifiedAt)\<close>, in ms, or \<open>NaN\<close> for an invalid date.\<close>

definition getTime :: "world \<Rightarrow> string \<Rightarrow> jsnum" where
  "getTime w modifiedAt = (case Date_getTime w modifiedAt of None \<Rightarrow> NaN | Some ms \<Rightarrow> Num ms)"

text \<open>The body of the loop \<open>for (const model of models)\<close>, with its inner \<open>try\<close>.\<close>

definition setModelMetrics :: "world \<Rightarrow> OllamaModel \<Rightarrow> state \<Rightarrow> exn option \<times> state" where
  "setModelMetrics w model s =
     (let name = str_or (model_name model) ''unknown'';
          size_arg = num_or (model_size model) (Num 0);
          modifiedAt = str_or (modified_at model) [];
          dt = (case details model of Some d \<Rightarrow> d | None \<Rightarrow> no_details)
      in case gauge_labels_set OLLAMA_MODEL_INFO_labelNames
                [name, str_or (family dt) ''unknown'', str_or (format dt) ''unknown'',
                 str_or (parameter_size dt) ''unknown'', str_or (quantization_level dt) ''unknown'',
                 str_or (parent_model dt) ''unknown''] (Num 1) (OLLAMA_MODEL_INFO s) of
           Inl e \<Rightarrow> (Some e, s)
         | Inr h1 \<Rightarrow>
             let s1 = s\<lparr>OLLAMA_MODEL_INFO := h1\<rparr> in
             (case gauge_labels_set OLLAMA_MODEL_SIZE_BYTES_labelNames [name] size_arg
                     (OLLAMA_MODEL_SIZE_BYTES s1) of
                Inl e \<Rightarrow> (Some e, s1)
              | Inr h2 \<Rightarrow>
                  let s2 = s1\<lparr>OLLAMA_MODEL_SIZE_BYTES := h2\<rparr> in
                  if modifiedAt \<noteq> [] then
                    (case gauge_labels_set OLLAMA_MODEL_MODIFIED_TIMESTAMP_labelNames [name]
                            (div_1000 (getTime w modifiedAt)) (OLLAMA_MODEL_MODIFIED_TIMESTAMP s2) of
                       Inl e \<Rightarrow>
                         (None, logger DEBUG (''Could not parse timestamp '' @ modifiedAt @ '': ''
                                               @ exn_string e) s2)
                     | Inr h3 \<Rightarrow> (None, s2\<lparr>OLLAMA_MODEL_MODIFIED_TIMESTAMP := h3\<rparr>))
                  else (None, s2)))"

fun setAllModelMetrics :: "world \<Rightarrow> OllamaModel list \<Rightarrow> state \<Rightarrow> exn option \<times> state" where
  "setAllModelMetrics w [] s = (None, s)"
| "setAllModelMetrics w (model # rest) s =
     (case setModelMetrics w model s of
        (Some e, s1) \<Rightarrow> (Some e, s1)
      | (None, s1) \<Rightarrow> setAllModelMetrics w rest s1)"

text \<open>\<open>new Map(entries)\<close>: a later entry of a key replaces the value and keeps the place.\<close>

definition new_Map :: "('k \<times> 'v) list \<Rightarrow> ('k \<times> 'v) list" where
  "new_Map entries = foldl (\<lambda>m (k, v). AList.update k v m) [] entries"

text \<open>The outer \<open>try\<close> block of \<open>updateModelMetrics\<close>, run on the parsed response.\<close>

definition updateModelMetrics_try :: "world \<Rightarrow> OllamaTagsResponse \<Rightarrow> state \<Rightarrow> exn option \<times> state" where
  "updateModelMetrics_try w data s =
     (let models = (case tags_models data of Some ms \<Rightarrow> ms | None \<Rightarrow> []);
          currentModels = map (\<lambda>m. str_or (model_name m) ''unknown'') models
      in case removeOldModels currentModels (map fst (lastModels s)) s of
           (Some e, s1) \<Rightarrow> (Some e, s1)
         | (None, s1) \<Rightarrow>
             let s2 = s1\<lparr>OLLAMA_MODELS_TOTAL := gauge_set (Num (real (length models))) (OLLAMA_MODELS_TOTAL s1)\<rparr>
             in (case setAllModelMetrics w models s2 of
                   (Some e, s3) \<Rightarrow> (Some e, s3)
                 | (None, s3) \<Rightarrow>
                     (None, s3\<lparr>lastModels := new_Map (map (\<lambda>m. (str_or (model_name m) ''unknown'', m)) models)\<rparr>)))"

definition updateModelMetrics :: "world \<Rightarrow> state \<Rightarrow> (exn + bool) \<times> state" where
  "updateModelMetrics w s =
     (case apiRequest (request_tags w) ''tags'' ''GET'' None s of
        (Inl e, s1) \<Rightarrow> (Inl e, s1)
      | (Inr data, s1) \<Rightarrow>
          let s2 = s1\<lparr>OLLAMA_EXPORTER_SCRAPE_DURATION :=
                        OLLAMA_EXPORTER_SCRAPE_DURATION s1 @ [(''list_models'', elapsed_list_models w)]\<rparr>
          in (case data of
                None \<Rightarrow> (Inr False, s2)
              | Some d \<Rightarrow>
                  (case updateModelMetrics_try w d s2 of
                     (Some e, s3) \<Rightarrow>
                       (Inr False, logger ERROR (''Error processing models: '' @ exn_string e) s3)
                   | (None, s3) \<Rightarrow> (Inr True, s3))))"

subsection \<open>updateRunningMetrics\<close>

text \<open>The body of the loop over \<open>this.lastRunningModels\<close>.\<close>

definition clearRunningModel :: "string \<Rightarrow> state \<Rightarrow> exn option \<times> state" where
  "clearRunningModel oldModel s =
     (case gauge_remove OLLAMA_RUNNING_MODELS_labelNames [oldModel] (OLLAMA_RUNNING_MODELS s) of
        Inl e \<Rightarrow> (Some e, s)
      | Inr h1 \<Rightarrow>
          let s1 = s\<lparr>OLLAMA_RUNNING_MODELS := h1\<rparr> in
          (case gauge_remove OLLAMA_MODEL_MEMORY_BYTES_labelNames [oldModel] (OLLAMA_MODEL_MEMORY_BYTES s1) of
             Inl e \<Rightarrow> (Some e, s1)
           | Inr h2 \<Rightarrow> (None, s1\<lparr>OLLAMA_MODEL_MEMORY_BYTES := h2\<rparr>)))"

fun clearRunningModels :: "string list \<Rightarrow> state \<Rightarrow> exn option \<times> state" where
  "clearRunningModels [] s = (None, s)"
| "clearRunningModels (oldModel # rest) s =
     (case clearRunningModel oldModel s of
        (Some e, s1) \<Rightarrow> (Some e, s1)
      | (None, s1) \<Rightarrow> clearRunningModels rest s1)"

text \<open>\<open>set.add(x)\<close> on a \<open>Set\<close> in insertion order.\<close>

definition Set_add :: "'a \<Rightarrow> 'a list \<Rightarrow> 'a list" where
  "Set_add x xs = (if x \<in> set xs then xs else xs @ [x])"

text \<open>
  The body of the loop \<open>for (const model of models)\<close> of \<open>updateRunningMetrics\<close>, on the
  local \<open>currentRunning\<close> and the state.
\<close>

definition setRunningMetrics ::
  "OllamaRunningModel \<Rightarrow> string list \<times> state \<Rightarrow> exn option \<times> string list \<times> state" where
  "setRunningMetrics model cs =
     (let currentRunning = fst cs; s = snd cs;
          name = str_or (running_name model) ''unknown'';
          sizeVram = num_or (size_vram model) (Num 0);
          currentRunning1 = Set_add name currentRunning
      in case gauge_labels_set OLLAMA_RUNNING_MODELS_labelNames [name] (Num 1) (OLLAMA_RUNNING_MODELS s) of
           Inl e \<Rightarrow> (Some e, currentRunning1, s)
         | Inr h1 \<Rightarrow>
             let s1 = s\<lparr>OLLAMA_RUNNING_MODELS := h1\<rparr> in
             if gt_zero sizeVram then
               (case gauge_labels_set OLLAMA_MODEL_MEMORY_BYTES_labelNames [name] sizeVram
                       (OLLAMA_MODEL_MEMORY_BYTES s1) of
                  Inl e \<Rightarrow> (Some e, currentRunning1, s1)
                | Inr h2 \<Rightarrow> (None, currentRunning1, s1\<lparr>OLLAMA_MODEL_MEMORY_BYTES := h2\<rparr>))
             else (None, currentRunning1, s1))"

fun setAllRunningMetrics ::
  "OllamaRunningModel list \<Rightarrow> string list \<times> state \<Rightarrow> exn option \<times> string list \<times> state" where
  "setAllRunningMetrics [] cs = (None, cs)"
| "setAllRunningMetrics (model # rest) cs =
     (case setRunningMetrics model cs of
        (Some e, cs1) \<Rightarrow> (Some e, cs1)
      | (None, cs1) \<Rightarrow> setAllRunningMetrics rest cs1)"

text \<open>The \<open>try\<close> block of \<open>updateRunningMetrics\<close>, run on the parsed response.\<close>

definition updateRunningMetrics_try :: "OllamaPsResponse \<Rightarrow> state \<Rightarrow> exn option \<times> state" where
  "updateRunningMetrics_try data s =
     (case clearRunningModels (lastRunningModels s) s of
        (Some e, s1) \<Rightarrow> (Some e, s1)
      | (None, s1) \<Rightarrow>
          let models = (case ps_models data of Some ms \<Rightarrow> ms | None \<Rightarrow> [])
          in (case setAllRunningMetrics models ([], s1) of
                (Some e, currentRunning, s2) \<Rightarrow> (Some e, s2)
              | (None, currentRunning, s2) \<Rightarrow> (None, s2\<lparr>lastRunningModels := currentRunning\<rparr>)))"

definition updateRunningMetrics :: "world \<Rightarrow> state \<Rightarrow> (exn + bool) \<times> state" where
  "updateRunningMetrics w s =
     (case apiRequest (request_ps w) ''ps'' ''GET'' None s of
        (Inl e, s1) \<Rightarrow> (Inl e, s1)
      | (Inr data, s1) \<Rightarrow>
          let s2 = s1\<lparr>OLLAMA_EXPORTER_SCRAPE_DURATION :=
                        OLLAMA_EXPORTER_SCRAPE_DURATION s1 @ [(''list_running'', elapsed_list_running w)]\<rparr>
          in (case data of
                None \<Rightarrow> (Inr False, s2)
              | Some d \<Rightarrow>
                  (case updateRunningMetrics_try d s2 of
                     (Some e, s3) \<Rightarrow>
                       (Inr False, logger ERROR (''Error processing running models: '' @ exn_string e) s3)
                   | (None, s3) \<Rightarrow> (Inr True, s3))))"

subsection \<open>updateMetrics\<close>

text \<open>
  The \<open>else\<close> branch of \<open>updateMetrics\<close>: both updates run, each may clear the flag
  \<open>success\<close>, then the summary is logged.
\<close>

definition updateBoth :: "world \<Rightarrow> bool \<Rightarrow> state \<Rightarrow> (exn + bool) \<times> state" where
  "updateBoth w success s =
     (case updateModelMetrics w s of
        (Inl e, s1) \<Rightarrow> (Inl e, s1)
      | (Inr modelsOk, s1) \<Rightarrow>
          let success1 = (if \<not> modelsOk then False else success) in
          (case updateRunningMetrics w s1 of
             (Inl e, s2) \<Rightarrow> (Inl e, s2)
           | (Inr runningOk, s2) \<Rightarrow>
               let success2 = (if \<not> runningOk then False else success1) in
               (Inr success2,
                logger INFO (''Updated metrics: '' @ show_nat (length (lastModels s2))
                             @ '' total models, '' @ show_nat (length (lastRunningModels s2))
                             @ '' running'') s2)))"

text \<open>The first two statements of the \<open>try\<close> block: the health probe and \<open>OLLAMA_UP.set\<close>.\<close>

definition probeHealth :: "world \<Rightarrow> state \<Rightarrow> (exn + bool) \<times> state" where
  "probeHealth w s =
     (case checkOllamaHealth w s of
        (Inl e, s1) \<Rightarrow> (Inl e, s1)
      | (Inr ollamaUp, s1) \<Rightarrow>
          (Inr ollamaUp, s1\<lparr>OLLAMA_UP := gauge_set (Num (if ollamaUp then 1 else 0)) (OLLAMA_UP s1)\<rparr>))"

text \<open>The \<open>try\<close> block of \<open>updateMetrics\<close>; its value is the flag \<open>success\<close> at its end.\<close>

definition updateMetrics_try :: "world \<Rightarrow> state \<Rightarrow> (exn + bool) \<times> state" where
  "updateMetrics_try w s =
     (case probeHealth w s of
        (Inl e, s1) \<Rightarrow> (Inl e, s1)
      | (Inr ollamaUp, s2) \<Rightarrow>
          (case (if \<not> ollamaUp then (Inr False, logger WARNING ''Ollama API is not responding'' s2)
                 else updateBoth w True s2) of
             (Inl e, s3) \<Rightarrow> (Inl e, s3)
           | (Inr success, s3) \<Rightarrow>
               (Inr success,
                if success then
                  s3\<lparr>OLLAMA_EXPORTER_LAST_SCRAPE_TIMESTAMP :=
                       gauge_set (Num (Date_now w / 1000)) (OLLAMA_EXPORTER_LAST_SCRAPE_TIMESTAMP s3)\<rparr>
                else s3)))"

text \<open>
  What follows the \<open>try\<close> block, on its outcome: the \<open>catch\<close> clears \<open>success\<close>, then the
  counter is incremented under the status.
\<close>

definition recordScrape :: "(exn + bool) \<times> state \<Rightarrow> exn option \<times> state" where
  "recordScrape r =
     (let (success, s1) =
            (case r of
               (Inl e, s) \<Rightarrow> (False, logger ERROR (''Error in metrics update: '' @ exn_string e) s)
             | (Inr b, s) \<Rightarrow> (b, s));
          status_label = (if success then ''success'' else ''error'')
      in case counter_labels_inc OLLAMA_EXPORTER_SCRAPES_TOTAL_labelNames [status_label]
                (OLLAMA_EXPORTER_SCRAPES_TOTAL s1) of
           Inl e \<Rightarrow> (Some e, s1)
         | Inr h \<Rightarrow> (None, s1\<lparr>OLLAMA_EXPORTER_SCRAPES_TOTAL := h\<rparr>))"

definition updateMetrics :: "world \<Rightarrow> state \<Rightarrow> exn option \<times> state" where
  "updateMetrics w s = recordScrape (updateMetrics_try w s)"

text \<open>
  The timeline of the process: the initial scrape and every firing of the interval run one
  cycle after the other on the same exporter, each against the world of its own time.
\<close>

fun metricsLoop :: "world list \<Rightarrow> state \<Rightarrow> state" where
  "metricsLoop [] s = s"
| "metricsLoop (w # ws) s = metricsLoop ws (snd (updateMetrics w s))"

section \<open>What the code writes, in closed form\<close>

text \<open>
  The definitions of this section are not part of the program: they name what its loops
  and steps compute, so that the theorems can say it. Each is proved equal to the code.
\<close>

subsection \<open>Sequences of instrument operations\<close>

text \<open>Setting a list of series one after the other, and removing a list of label sets.\<close>

definition puts :: "('k \<times> 'v) list \<Rightarrow> ('k \<times> 'v) list \<Rightarrow> ('k \<times> 'v) list" where
  "puts entries h = foldl (\<lambda>m (k, v). AList.update k v m) h entries"

definition removes :: "'k list \<Rightarrow> ('k \<times> 'v) list \<Rightarrow> ('k \<times> 'v) list" where
  "removes ks h = foldl (\<lambda>m k. AList.delete k m) h ks"

text \<open>\<open>add\<close> applied to each element in turn.\<close>

definition adds :: "'a list \<Rightarrow> 'a list \<Rightarrow> 'a list" where
  "adds xs acc = foldl (\<lambda>a x. Set_add x a) acc xs"

text \<open>Incrementing the counter under one status.\<close>

definition bump :: "string \<Rightarrow> counterMap \<Rightarrow> counterMap" where
  "bump status_label h =
     AList.update [status_label] (case map_of h [status_label] of None \<Rightarrow> 1 | Some n \<Rightarrow> n + 1) h"

text \<open>The value a counter exposes for a label set; a series that was never incremented reads 0.\<close>

definition counter_value :: "counterMap \<Rightarrow> string list \<Rightarrow> nat" where
  "counter_value h k = (case map_of h k of None \<Rightarrow> 0 | Some n \<Rightarrow> n)"

subsection \<open>The series of a record\<close>

text \<open>The lists a response carries: \<open>data.models || []\<close>.\<close>

definition inventory :: "OllamaTagsResponse \<Rightarrow> OllamaModel list" where
  "inventory d = (case tags_models d of Some ms \<Rightarrow> ms | None \<Rightarrow> [])"

definition loaded :: "OllamaPsResponse \<Rightarrow> OllamaRunningModel list" where
  "loaded d = (case ps_models d of Some ms \<Rightarrow> ms | None \<Rightarrow> [])"

text \<open>The name a record is known by: \<open>model.name || 'unknown'\<close>.\<close>

definition modelName :: "OllamaModel \<Rightarrow> string" where
  "modelName m = str_or (model_name m) ''unknown''"

definition runningName :: "OllamaRunningModel \<Rightarrow> string" where
  "runningName r = str_or (running_name r) ''unknown''"

text \<open>The series one inventory record sets, and the series one loaded-model record sets.\<close>

definition info_series :: "OllamaModel \<Rightarrow> string list \<times> jsnum" where
  "info_series m =
     (let dt = (case details m of Some d \<Rightarrow> d | None \<Rightarrow> no_details)
      in ([modelName m, str_or (family dt) ''unknown'', str_or (format dt) ''unknown'',
           str_or (parameter_size dt) ''unknown'', str_or (quantization_level dt) ''unknown'',
           str_or (parent_model dt) ''unknown''], Num 1))"

definition size_series :: "OllamaModel \<Rightarrow> string list \<times> jsnum" where
  "size_series m = ([modelName m], num_or (model_size m) (Num 0))"

definition timestamp_series :: "world \<Rightarrow> OllamaModel \<Rightarrow> (string list \<times> jsnum) list" where
  "timestamp_series w m =
     (if str_or (modified_at m) [] \<noteq> []
      then [([modelName m], div_1000 (getTime w (str_or (modified_at m) [])))] else [])"

definition running_series :: "OllamaRunningModel \<Rightarrow> string list \<times> jsnum" where
  "running_series r = ([runningName r], Num 1)"

definition memory_series :: "OllamaRunningModel \<Rightarrow> (string list \<times> jsnum) list" where
  "memory_series r =
     (if gt_zero (num_or (size_vram r) (Num 0))
      then [([runningName r], num_or (size_vram r) (Num 0))] else [])"

subsection \<open>The three upstream calls\<close>

text \<open>
  The value \<open>apiRequest\<close> hands to its caller for an endpoint; \<open>None\<close> is the failure
  \<open>null\<close>.
\<close>

definition fetched ::
  "(string \<Rightarrow> HttpRequestOptions \<Rightarrow> exn + 'a HttpResponse option) \<Rightarrow> string \<Rightarrow> state \<Rightarrow> 'a option" where
  "fetched request endpoint s =
     (case fst (apiRequest request endpoint ''GET'' None s) of Inr r \<Rightarrow> r | Inl e \<Rightarrow> None)"

definition fetchVersion :: "world \<Rightarrow> state \<Rightarrow> OllamaVersionResponse option" where
  "fetchVersion w s = fetched (request_version w) ''version'' s"

definition fetchInventory :: "world \<Rightarrow> state \<Rightarrow> OllamaTagsResponse option" where
  "fetchInventory w s = fetched (request_tags w) ''tags'' s"

definition fetchRunning :: "world \<Rightarrow> state \<Rightarrow> OllamaPsResponse option" where
  "fetchRunning w s = fetched (request_ps w) ''ps'' s"

subsection \<open>The steps of one cycle\<close>

text \<open>
  The outcome of each step of a cycle as the code computes it: the value returned by the
  step's function in the state the cycle runs it in. The inventory update and the running
  update are only run after a successful probe.
\<close>

definition health_step_ok :: "world \<Rightarrow> state \<Rightarrow> bool" where
  "health_step_ok w s \<longleftrightarrow> fst (probeHealth w s) = Inr True"

definition inventory_step_ok :: "world \<Rightarrow> state \<Rightarrow> bool" where
  "inventory_step_ok w s \<longleftrightarrow>
     health_step_ok w s \<and> fst (updateModelMetrics w (snd (probeHealth w s))) = Inr True"

definition running_step_ok :: "world \<Rightarrow> state \<Rightarrow> bool" where
  "running_step_ok w s \<longleftrightarrow>
     health_step_ok w s \<and>
     fst (updateRunningMetrics w (snd (updateModelMetrics w (snd (probeHealth w s))))) = Inr True"

text \<open>
  The same outcomes and the states the steps produce, written out on the state before the
  cycle (the log apart).
\<close>

definition inventory_ok :: "world \<Rightarrow> state \<Rightarrow> bool" where
  "inventory_ok w s =
     (case fetchInventory w s of
        None \<Rightarrow> False
      | Some d \<Rightarrow> set (map fst (lastModels s)) \<subseteq> set (map modelName (inventory d)))"

definition scrape_ok :: "world \<Rightarrow> state \<Rightarrow> bool" where
  "scrape_ok w s \<longleftrightarrow> fetchVersion w s \<noteq> None \<and> inventory_ok w s \<and> fetchRunning w s \<noteq> None"

definition health_effect :: "world \<Rightarrow> state \<Rightarrow> state" where
  "health_effect w s =
     s\<lparr>requestHistory := requestHistory s @ [baseUrl s @ ''/version''],
       OLLAMA_VERSION_INFO :=
         (case fetchVersion w s of
            None \<Rightarrow> OLLAMA_VERSION_INFO s
          | Some v \<Rightarrow> AList.update [str_or (version v) ''unknown''] (Num 1) (OLLAMA_VERSION_INFO s)),
       OLLAMA_UP := gauge_set (Num (if fetchVersion w s = None then 0 else 1)) (OLLAMA_UP s)\<rparr>"

definition inventory_effect :: "world \<Rightarrow> state \<Rightarrow> state" where
  "inventory_effect w s =
     (let s1 = s\<lparr>requestHistory := requestHistory s @ [baseUrl s @ ''/tags''],
                 OLLAMA_EXPORTER_SCRAPE_DURATION :=
                   OLLAMA_EXPORTER_SCRAPE_DURATION s @ [(''list_models'', elapsed_list_models w)]\<rparr>
      in case fetchInventory w s of
           None \<Rightarrow> s1
         | Some d \<Rightarrow> snd (updateModelMetrics_try w d s1))"

definition running_effect :: "world \<Rightarrow> state \<Rightarrow> state" where
  "running_effect w s =
     (let s1 = s\<lparr>requestHistory := requestHistory s @ [baseUrl s @ ''/ps''],
                 OLLAMA_EXPORTER_SCRAPE_DURATION :=
                   OLLAMA_EXPORTER_SCRAPE_DURATION s @ [(''list_running'', elapsed_list_running w)]\<rparr>
      in case fetchRunning w s of
           None \<Rightarrow> s1
         | Some d \<Rightarrow> snd (updateRunningMetrics_try d s1))"

definition body_effect :: "world \<Rightarrow> state \<Rightarrow> state" where
  "body_effect w s =
     (if fetchVersion w s = None then health_effect w s
      else running_effect w (inventory_effect w (health_effect w s)))"

definition try_effect :: "world \<Rightarrow> state \<Rightarrow> state" where
  "try_effect w s =
     (if scrape_ok w s then
        (body_effect w s)\<lparr>OLLAMA_EXPORTER_LAST_SCRAPE_TIMESTAMP :=
           gauge_set (Num (Date_now w / 1000)) (OLLAMA_EXPORTER_LAST_SCRAPE_TIMESTAMP (body_effect w s))\<rparr>
      else body_effect w s)"

definition cycle_effect :: "world \<Rightarrow> state \<Rightarrow> state" where
  "cycle_effect w s =
     (try_effect w s)\<lparr>OLLAMA_EXPORTER_SCRAPES_TOTAL :=
        bump (if scrape_ok w s then ''success'' else ''error'')
          (OLLAMA_EXPORTER_SCRAPES_TOTAL (try_effect w s))\<rparr>"

text \<open>The state after a sequence of cycles (the log apart).\<close>

fun scrapes :: "world list \<Rightarrow> state \<Rightarrow> state" where
  "scrapes [] s = s"
| "scrapes (w # ws) s = scrapes ws (cycle_effect w s)"

subsection \<open>Reachable states and comparisons\<close>

text \<open>
  Every series of the two running-model gauges belongs to a name of the running snapshot.
  It holds of a new exporter and every cycle keeps it.
\<close>

definition running_tracked :: "state \<Rightarrow> bool" where
  "running_tracked s \<longleftrightarrow>
     set (map fst (OLLAMA_RUNNING_MODELS s)) \<subseteq> set (map (\<lambda>n. [n]) (lastRunningModels s)) \<and>
     set (map fst (OLLAMA_MODEL_MEMORY_BYTES s)) \<subseteq> set (map (\<lambda>n. [n]) (lastRunningModels s))"



text \<open>
  What the registry exposes, without the scrape-duration histogram, the last-scrape
  timestamp gauge and the scrapes-total counter; the model-modified timestamps are in.
\<close>

definition exposition_modulo_time_and_count ::
  "state \<Rightarrow> hashMap \<times> hashMap \<times> hashMap \<times> hashMap \<times> hashMap \<times> hashMap \<times> hashMap \<times> hashMap \<times> hashMap" where
  "exposition_modulo_time_and_count s =
     (EXPORTER_INFO s, OLLAMA_UP s, OLLAMA_VERSION_INFO s, OLLAMA_MODELS_TOTAL s, OLLAMA_MODEL_INFO s,
      OLLAMA_MODEL_SIZE_BYTES s, OLLAMA_MODEL_MODIFIED_TIMESTAMP s, OLLAMA_RUNNING_MODELS s,
      OLLAMA_MODEL_MEMORY_BYTES s)"

subsection \<open>The HTTP client in front of the runtime\<close>

text \<open>
  The \<open>HttpClient\<close> that \<open>main\<close> hands to the exporter: a \<open>FetchHttpClient\<close> over a fetch
  function. Its \<open>request\<close> returns and never throws.
\<close>

definition FetchHttpClient ::
  "(string \<Rightarrow> RequestInit \<Rightarrow> exn + 'a HttpResponse) \<Rightarrow> string \<Rightarrow> HttpRequestOptions
     \<Rightarrow> exn + 'a HttpResponse option" where
  "FetchHttpClient fetchFn url options = Inr (FetchHttpClient_request fetchFn url options)"

text \<open>
  The response the runtime builds for a status line and a body: \<open>ok\<close> is true exactly for the
  statuses 200 to 299.
\<close>

definition server_response :: "nat \<Rightarrow> string \<Rightarrow> exn + 'a option \<Rightarrow> 'a HttpResponse" where
  "server_response st reason parsed =
     \<lparr>ok = (200 \<le> st \<and> st \<le> 299), status = st, statusText = reason, json = parsed\<rparr>"

section \<open>Scenarios\<close>

text \<open>
  Concrete inputs for the instances below: an HTTP client whose every request is answered
  \<open>200 OK\<close> with a given body, one whose request yields \<open>null\<close>, the records of the
  test suite, and a freshly constructed exporter.
\<close>

definition respond :: "'a \<Rightarrow> string \<Rightarrow> HttpRequestOptions \<Rightarrow> exn + 'a HttpResponse option" where
  "respond v url options = Inr (Some \<lparr>ok = True, status = 200, statusText = ''OK'', json = Inr (Some v)\<rparr>)"

definition no_response :: "string \<Rightarrow> HttpRequestOptions \<Rightarrow> exn + 'a HttpResponse option" where
  "no_response url options = Inr None"

definition installed :: "string \<Rightarrow> real \<Rightarrow> string \<Rightarrow> OllamaModel" where
  "installed n sz modified =
     \<lparr>model_name = Some n, model_size = Some (Num sz), modified_at = Some modified,
      details = Some \<lparr>family = Some ''llama'', format = Some ''gguf'', parameter_size = Some ''7B'',
                      quantization_level = Some ''Q4_0'', parent_model = None\<rparr>\<rparr>"

definition running :: "string \<Rightarrow> real \<Rightarrow> OllamaRunningModel" where
  "running n vram = \<lparr>running_name = Some n, size_vram = Some (Num vram)\<rparr>"

text \<open>The runtime's date parser, as far as the scenarios need it.\<close>

definition parse_date :: "string \<Rightarrow> real option" where
  "parse_date s = (if s = ''2023-12-07T09:32:18.757Z'' then Some 1701941538757 else None)"

definition serving :: "OllamaModel list \<Rightarrow> OllamaRunningModel list \<Rightarrow> world" where
  "serving ms rs =
     \<lparr>request_version = respond \<lparr>version = Some ''0.1.15''\<rparr>,
      request_tags = respond \<lparr>tags_models = Some ms\<rparr>,
      request_ps = respond \<lparr>ps_models = Some rs\<rparr>,
      Date_getTime = parse_date,
      Date_now = 1702000000000,
      elapsed_list_models = 1 / 100,
      elapsed_list_running = 1 / 50\<rparr>"

definition unreachable :: world where
  "unreachable =
     \<lparr>request_version = no_response, request_tags = no_response, request_ps = no_response,
      Date_getTime = parse_date, Date_now = 1702000000000,
      elapsed_list_models = 1 / 100, elapsed_list_running = 1 / 50\<rparr>"

definition exporter0 :: state where
  "exporter0 = projr (OllamaExporter ''localhost:11434'' 30 ''v24.0.0'')"

text \<open>
  The end-to-end scenarios of the specification: B, one installed model that is also loaded;
  C, model \<open>A\<close> installed at the first cycle and only model \<open>B\<close> at the second.
\<close>

definition scenario_B :: world where
  "scenario_B =
     serving [installed ''llama2:7b'' 3826793677 ''2023-12-07T09:32:18.757Z'']
             [running ''llama2:7b'' 4096000000]"

definition scenario_C_first :: world where
  "scenario_C_first = serving [installed ''A'' 5 ''2023-12-07T09:32:18.757Z''] []"

definition scenario_C_second :: world where
  "scenario_C_second = serving [installed ''B'' 6 ''2023-12-07T09:32:18.757Z''] []"


section \<open>Properties of the instruments and of sequences of operations\<close>

subsection \<open>Label sets of the right and of the wrong length\<close>

text \<open>
  Every call of \<open>labels\<close> and \<open>remove\<close> in exporter.ts passes as many values as the instrument
  has label names, but one: \<open>OLLAMA_MODEL_INFO.remove(oldModel)\<close> passes one value to an
  instrument of six labels, and throws.
\<close>

lemma gauge_labels_set_one:
  "length labelNames = 1 \<Longrightarrow> gauge_labels_set labelNames [n] v h = Inr (AList.update [n] v h)"
  by (simp add: gauge_labels_set_def getLabels_def)

lemma gauge_remove_one:
  "length labelNames = 1 \<Longrightarrow> gauge_remove labelNames [n] h = Inr (AList.delete [n] h)"
  by (simp add: gauge_remove_def getLabels_def)

lemma gauge_labels_set_model_info:
  "gauge_labels_set OLLAMA_MODEL_INFO_labelNames [a, b, c, d, e, f] v h = Inr (AList.update [a, b, c, d, e, f] v h)"
  by (simp add: gauge_labels_set_def getLabels_def OLLAMA_MODEL_INFO_labelNames_def)

lemma gauge_remove_model_info:
  "gauge_remove OLLAMA_MODEL_INFO_labelNames [n] h = Inl (JsError ''Invalid number of arguments'')"
  by (simp add: gauge_remove_def getLabels_def OLLAMA_MODEL_INFO_labelNames_def)

lemma map_of_gauge_set [simp]: "map_of (gauge_set v h) [] = Some v"
  by (simp add: gauge_set_def AList.update_conv')

lemma counter_value_bump:
  "counter_value (bump l h) k = counter_value h k + (if k = [l] then 1 else 0)"
  by (simp add: counter_value_def bump_def AList.update_conv' split: option.splits)

subsection \<open>Setting and removing lists of series\<close>

lemma puts_Nil [simp]: "puts [] h = h"
  by (simp add: puts_def)

lemma puts_Cons [simp]: "puts ((k, v) # entries) h = puts entries (AList.update k v h)"
  by (simp add: puts_def)

lemma puts_append: "puts (xs @ ys) h = puts ys (puts xs h)"
  by (simp add: puts_def)

lemma removes_Nil [simp]: "removes [] h = h"
  by (simp add: removes_def)

lemma removes_Cons [simp]: "removes (k # ks) h = removes ks (AList.delete k h)"
  by (simp add: removes_def)

lemma adds_Nil [simp]: "adds [] acc = acc"
  by (simp add: adds_def)

lemma adds_Cons [simp]: "adds (x # xs) acc = adds xs (Set_add x acc)"
  by (simp add: adds_def)











lemma find_SomeD: "find P xs = Some x \<Longrightarrow> P x \<and> x \<in> set xs"
  by (induction xs) (auto split: if_splits)

lemma find_vanished_None:
  "find (\<lambda>k. k \<notin> set ys) xs = None \<longleftrightarrow> set xs \<subseteq> set ys"
  unfolding find_None_iff by blast

section \<open>The code in closed form\<close>

subsection \<open>apiRequest\<close>

text \<open>
  \<open>apiRequest\<close> never throws; it appends the URL to the request history, may log, and
  touches nothing else. Its value depends on the state through \<open>baseUrl\<close> and \<open>apiTimeout\<close>
  only.
\<close>

lemma apiRequest_no_throw:
  "\<exists>r. fst (apiRequest request endpoint m d s) = Inr r"
  unfolding apiRequest_def apiRequest_try_def Let_def
  by (auto split: sum.splits option.splits exn.splits prod.splits if_splits)

lemma apiRequest_frame:
  "snd (apiRequest request endpoint m d s) =
     s\<lparr>requestHistory := requestHistory s @ [baseUrl s @ ''/'' @ endpoint],
       logged := logged (snd (apiRequest request endpoint m d s))\<rparr>"
  unfolding apiRequest_def apiRequest_try_def logger_def Let_def
  by (auto split: sum.splits option.splits exn.splits prod.splits if_splits)

lemma apiRequest_cases:
  obtains r l where
    "apiRequest request endpoint m d s =
       (Inr r, s\<lparr>requestHistory := requestHistory s @ [baseUrl s @ ''/'' @ endpoint], logged := l\<rparr>)"
proof -
  obtain r where "fst (apiRequest request endpoint m d s) = Inr r"
    using apiRequest_no_throw by blast
  then have "apiRequest request endpoint m d s = (Inr r, snd (apiRequest request endpoint m d s))"
    by (metis prod.collapse)
  then show thesis
    using that apiRequest_frame [of request endpoint m d s] by metis
qed

lemma apiRequest_fetched:
  obtains l where
    "apiRequest request endpoint ''GET'' None s =
       (Inr (fetched request endpoint s),
        s\<lparr>requestHistory := requestHistory s @ [baseUrl s @ ''/'' @ endpoint], logged := l\<rparr>)"
proof -
  obtain r l where *: "apiRequest request endpoint ''GET'' None s =
      (Inr r, s\<lparr>requestHistory := requestHistory s @ [baseUrl s @ ''/'' @ endpoint], logged := l\<rparr>)"
    by (rule apiRequest_cases)
  then have "fetched request endpoint s = r"
    by (simp add: fetched_def)
  with * that show thesis by simp
qed

lemma fetched_cong:
  "baseUrl s' = baseUrl s \<Longrightarrow> apiTimeout s' = apiTimeout s \<Longrightarrow>
   fetched request endpoint s' = fetched request endpoint s"
  unfolding fetched_def apiRequest_def apiRequest_try_def Let_def
  by (simp split: sum.splits option.splits exn.splits prod.splits)

lemma fetch_logged [simp]:
  "fetchVersion w (s\<lparr>logged := l\<rparr>) = fetchVersion w s"
  "fetchInventory w (s\<lparr>logged := l\<rparr>) = fetchInventory w s"
  "fetchRunning w (s\<lparr>logged := l\<rparr>) = fetchRunning w s"
  unfolding fetchVersion_def fetchInventory_def fetchRunning_def
  by (rule fetched_cong; simp)+

subsection \<open>The inventory update\<close>

text \<open>
  The loop over the previous snapshot stops at the first name that is not in the current
  inventory: its size and timestamp series are removed, then the removal of its
  \<open>model_info\<close> series throws. If there is no such name the loop does nothing.
\<close>

lemma removeOldModel_eq:
  "removeOldModel cur old s =
     (if old \<notin> set cur then
        (Some (JsError ''Invalid number of arguments''),
         s\<lparr>OLLAMA_MODEL_SIZE_BYTES := AList.delete [old] (OLLAMA_MODEL_SIZE_BYTES s),
           OLLAMA_MODEL_MODIFIED_TIMESTAMP := AList.delete [old] (OLLAMA_MODEL_MODIFIED_TIMESTAMP s)\<rparr>)
      else (None, s))"
  by (simp add: removeOldModel_def gauge_remove_one gauge_remove_model_info
        OLLAMA_MODEL_SIZE_BYTES_labelNames_def OLLAMA_MODEL_MODIFIED_TIMESTAMP_labelNames_def)

lemma removeOldModels_eq:
  "removeOldModels cur olds s =
     (case find (\<lambda>k. k \<notin> set cur) olds of
        None \<Rightarrow> (None, s)
      | Some old \<Rightarrow>
        (Some (JsError ''Invalid number of arguments''),
         s\<lparr>OLLAMA_MODEL_SIZE_BYTES := AList.delete [old] (OLLAMA_MODEL_SIZE_BYTES s),
           OLLAMA_MODEL_MODIFIED_TIMESTAMP := AList.delete [old] (OLLAMA_MODEL_MODIFIED_TIMESTAMP s)\<rparr>))"
  by (induction olds) (simp_all add: removeOldModel_eq)

lemma setModelMetrics_eq:
  "setModelMetrics w m s =
     (None, s\<lparr>OLLAMA_MODEL_INFO := puts [info_series m] (OLLAMA_MODEL_INFO s),
              OLLAMA_MODEL_SIZE_BYTES := puts [size_series m] (OLLAMA_MODEL_SIZE_BYTES s),
              OLLAMA_MODEL_MODIFIED_TIMESTAMP := puts (timestamp_series w m) (OLLAMA_MODEL_MODIFIED_TIMESTAMP s)\<rparr>)"
  by (simp add: setModelMetrics_def Let_def gauge_labels_set_one gauge_labels_set_model_info
        OLLAMA_MODEL_SIZE_BYTES_labelNames_def OLLAMA_MODEL_MODIFIED_TIMESTAMP_labelNames_def
        info_series_def size_series_def timestamp_series_def modelName_def)

lemma setAllModelMetrics_eq:
  "setAllModelMetrics w ms s =
     (None, s\<lparr>OLLAMA_MODEL_INFO := puts (map info_series ms) (OLLAMA_MODEL_INFO s),
              OLLAMA_MODEL_SIZE_BYTES := puts (map size_series ms) (OLLAMA_MODEL_SIZE_BYTES s),
              OLLAMA_MODEL_MODIFIED_TIMESTAMP :=
                puts (concat (map (timestamp_series w) ms)) (OLLAMA_MODEL_MODIFIED_TIMESTAMP s)\<rparr>)"
proof (induction ms arbitrary: s)
  case Nil
  show ?case by simp
next
  case (Cons m ms)
  obtain k v where i: "info_series m = (k, v)" by (cases "info_series m")
  obtain k' v' where z: "size_series m = (k', v')" by (cases "size_series m")
  show ?case
    by (simp add: setModelMetrics_eq Cons.IH i z puts_append)
qed

lemma updateModelMetrics_try_eq:
  "updateModelMetrics_try w d s =
     (case find (\<lambda>k. k \<notin> set (map modelName (inventory d))) (map fst (lastModels s)) of
        Some old \<Rightarrow>
          (Some (JsError ''Invalid number of arguments''),
           s\<lparr>OLLAMA_MODEL_SIZE_BYTES := AList.delete [old] (OLLAMA_MODEL_SIZE_BYTES s),
             OLLAMA_MODEL_MODIFIED_TIMESTAMP := AList.delete [old] (OLLAMA_MODEL_MODIFIED_TIMESTAMP s)\<rparr>)
      | None \<Rightarrow>
          (None,
           s\<lparr>OLLAMA_MODELS_TOTAL := gauge_set (Num (real (length (inventory d)))) (OLLAMA_MODELS_TOTAL s),
             OLLAMA_MODEL_INFO := puts (map info_series (inventory d)) (OLLAMA_MODEL_INFO s),
             OLLAMA_MODEL_SIZE_BYTES := puts (map size_series (inventory d)) (OLLAMA_MODEL_SIZE_BYTES s),
             OLLAMA_MODEL_MODIFIED_TIMESTAMP :=
               puts (concat (map (timestamp_series w) (inventory d))) (OLLAMA_MODEL_MODIFIED_TIMESTAMP s),
             lastModels := new_Map (map (\<lambda>m. (modelName m, m)) (inventory d))\<rparr>))"
proof -
  have names: "(\<lambda>m. str_or (model_name m) ''unknown'') = modelName"
    by (simp add: fun_eq_iff modelName_def)
  show ?thesis
    unfolding updateModelMetrics_try_def Let_def inventory_def [symmetric] names
    by (simp add: removeOldModels_eq setAllModelMetrics_eq modelName_def split: option.splits)
qed

lemma updateModelMetrics_try_logged:
  "updateModelMetrics_try w d (s\<lparr>logged := l\<rparr>) =
     (fst (updateModelMetrics_try w d s), (snd (updateModelMetrics_try w d s))\<lparr>logged := l\<rparr>)"
  by (simp add: updateModelMetrics_try_eq split: option.splits)

lemma updateModelMetrics_try_ok:
  "fst (updateModelMetrics_try w d s) = None \<longleftrightarrow>
     set (map fst (lastModels s)) \<subseteq> set (map modelName (inventory d))"
proof -
  have "fst (updateModelMetrics_try w d s) = None \<longleftrightarrow>
      find (\<lambda>k. k \<notin> set (map modelName (inventory d))) (map fst (lastModels s)) = None"
    by (simp add: updateModelMetrics_try_eq split: option.splits)
  also have "\<dots> \<longleftrightarrow> set (map fst (lastModels s)) \<subseteq> set (map modelName (inventory d))"
    unfolding find_None_iff by blast
  finally show ?thesis .
qed

lemma updateModelMetrics_eq:
  obtains l where
    "updateModelMetrics w s = (Inr (inventory_ok w s), (inventory_effect w s)\<lparr>logged := l\<rparr>)"
proof -
  obtain l where a: "apiRequest (request_tags w) ''tags'' ''GET'' None s =
      (Inr (fetchInventory w s),
       s\<lparr>requestHistory := requestHistory s @ [baseUrl s @ ''/'' @ ''tags''], logged := l\<rparr>)"
    unfolding fetchInventory_def by (rule apiRequest_fetched)
  show thesis
  proof (cases "fetchInventory w s")
    case None
    then have "updateModelMetrics w s = (Inr (inventory_ok w s), (inventory_effect w s)\<lparr>logged := l\<rparr>)"
      by (simp add: updateModelMetrics_def a inventory_ok_def inventory_effect_def)
    then show thesis by (rule that)
  next
    case (Some d)
    show thesis
    proof (cases "find (\<lambda>k. k \<notin> set (map modelName (inventory d))) (map fst (lastModels s))")
      case None
      then have ok: "inventory_ok w s"
        unfolding inventory_ok_def Some find_None_iff by auto
      have "updateModelMetrics w s = (Inr (inventory_ok w s), (inventory_effect w s)\<lparr>logged := l\<rparr>)"
        using None
        by (simp add: updateModelMetrics_def a Some ok inventory_effect_def updateModelMetrics_try_eq)
      then show thesis by (rule that)
    next
      case (Some old)
      from find_SomeD [OF Some]
      have "old \<notin> set (map modelName (inventory d))" "old \<in> set (map fst (lastModels s))"
        by blast+
      then have ok: "\<not> inventory_ok w s"
        unfolding inventory_ok_def \<open>fetchInventory w s = Some d\<close> by auto
      have "updateModelMetrics w s =
          (Inr (inventory_ok w s),
           (inventory_effect w s)\<lparr>logged := l @
               [(ERROR, ''Error processing models: '' @ exn_string (JsError ''Invalid number of arguments''))]\<rparr>)"
        using Some
        by (simp add: updateModelMetrics_def a \<open>fetchInventory w s = Some d\<close> ok inventory_effect_def
              updateModelMetrics_try_eq logger_def)
      then show thesis by (rule that)
    qed
  qed
qed

lemma inventory_ok_logged [simp]: "inventory_ok w (s\<lparr>logged := l\<rparr>) = inventory_ok w s"
  by (simp add: inventory_ok_def split: option.splits)

lemma inventory_effect_logged [simp]:
  "inventory_effect w (s\<lparr>logged := l\<rparr>) = (inventory_effect w s)\<lparr>logged := l\<rparr>"
  by (simp add: inventory_effect_def Let_def updateModelMetrics_try_eq split: option.splits)

lemma inventory_effect_const [simp]:
  "baseUrl (inventory_effect w s) = baseUrl s"
  "apiTimeout (inventory_effect w s) = apiTimeout s"
  "lastRunningModels (inventory_effect w s) = lastRunningModels s"
  by (simp_all add: inventory_effect_def Let_def updateModelMetrics_try_eq split: option.splits)

lemma inventory_effect_running_fields [simp]:
  "OLLAMA_RUNNING_MODELS (inventory_effect w s) = OLLAMA_RUNNING_MODELS s"
  "OLLAMA_MODEL_MEMORY_BYTES (inventory_effect w s) = OLLAMA_MODEL_MEMORY_BYTES s"
  by (simp_all add: inventory_effect_def Let_def updateModelMetrics_try_eq split: option.splits)

lemma fetch_inventory_effect [simp]:
  "fetchRunning w (inventory_effect w' s) = fetchRunning w s"
  unfolding fetchRunning_def
  by (rule fetched_cong; simp)

lemma fetch_after_inventory [simp]:
  "fetchRunning w (snd (updateModelMetrics w' s)) = fetchRunning w s"
proof -
  obtain l where "updateModelMetrics w' s = (Inr (inventory_ok w' s), (inventory_effect w' s)\<lparr>logged := l\<rparr>)"
    by (rule updateModelMetrics_eq)
  then show ?thesis by simp
qed


lemma inventory_effect_failed:
  assumes "\<not> inventory_ok w s"
  shows "OLLAMA_MODELS_TOTAL (inventory_effect w s) = OLLAMA_MODELS_TOTAL s"
    and "OLLAMA_MODEL_INFO (inventory_effect w s) = OLLAMA_MODEL_INFO s"
    and "lastModels (inventory_effect w s) = lastModels s"
proof -
  have "OLLAMA_MODELS_TOTAL (inventory_effect w s) = OLLAMA_MODELS_TOTAL s
      \<and> OLLAMA_MODEL_INFO (inventory_effect w s) = OLLAMA_MODEL_INFO s
      \<and> lastModels (inventory_effect w s) = lastModels s"
  proof (cases "fetchInventory w s")
    case None
    then show ?thesis by (simp add: inventory_effect_def)
  next
    case (Some d)
    with assms have "find (\<lambda>k. k \<notin> set (map modelName (inventory d))) (map fst (lastModels s)) \<noteq> None"
      by (simp only: find_vanished_None inventory_ok_def option.case not_False_eq_True)
    then obtain old where "find (\<lambda>k. k \<notin> set (map modelName (inventory d))) (map fst (lastModels s)) = Some old"
      by blast
    then show ?thesis
      by (simp add: inventory_effect_def Let_def Some updateModelMetrics_try_eq)
  qed
  then show "OLLAMA_MODELS_TOTAL (inventory_effect w s) = OLLAMA_MODELS_TOTAL s"
    and "OLLAMA_MODEL_INFO (inventory_effect w s) = OLLAMA_MODEL_INFO s"
    and "lastModels (inventory_effect w s) = lastModels s"
    by simp_all
qed




lemma vanished_name_fails_update:
  assumes "fetchInventory w s = Some d"
    and "n \<in> set (map fst (lastModels s))"
    and "n \<notin> set (map modelName (inventory d))"
  shows "fst (updateModelMetrics w s) = Inr False \<and>
         OLLAMA_MODEL_INFO (snd (updateModelMetrics w s)) = OLLAMA_MODEL_INFO s"
proof -
  obtain l where m: "updateModelMetrics w s = (Inr (inventory_ok w s), (inventory_effect w s)\<lparr>logged := l\<rparr>)"
    by (rule updateModelMetrics_eq)
  have "\<not> inventory_ok w s"
    using assms by (auto simp add: inventory_ok_def)
  then show ?thesis
    by (simp add: m inventory_effect_failed)
qed

lemma unparseable_timestamp_sets_NaN:
  assumes "str_or (modified_at m) [] \<noteq> []"
    and "Date_getTime w (str_or (modified_at m) []) = None"
  shows "fst (setModelMetrics w m s) = None \<and>
         map_of (OLLAMA_MODEL_MODIFIED_TIMESTAMP (snd (setModelMetrics w m s))) [modelName m] = Some NaN \<and>
         logged (snd (setModelMetrics w m s)) = logged s"
  using assms
  by (simp add: setModelMetrics_eq timestamp_series_def getTime_def AList.update_conv')

subsection \<open>The running update\<close>

lemma clearRunningModel_eq:
  "clearRunningModel old s =
     (None, s\<lparr>OLLAMA_RUNNING_MODELS := AList.delete [old] (OLLAMA_RUNNING_MODELS s),
              OLLAMA_MODEL_MEMORY_BYTES := AList.delete [old] (OLLAMA_MODEL_MEMORY_BYTES s)\<rparr>)"
  by (simp add: clearRunningModel_def gauge_remove_one OLLAMA_RUNNING_MODELS_labelNames_def
        OLLAMA_MODEL_MEMORY_BYTES_labelNames_def)

lemma clearRunningModels_eq:
  "clearRunningModels olds s =
     (None, s\<lparr>OLLAMA_RUNNING_MODELS := removes (map (\<lambda>n. [n]) olds) (OLLAMA_RUNNING_MODELS s),
              OLLAMA_MODEL_MEMORY_BYTES := removes (map (\<lambda>n. [n]) olds) (OLLAMA_MODEL_MEMORY_BYTES s)\<rparr>)"
  by (induction olds arbitrary: s) (simp_all add: clearRunningModel_eq)

lemma setRunningMetrics_eq:
  "setRunningMetrics r (cur, s) =
     (None, Set_add (runningName r) cur,
      s\<lparr>OLLAMA_RUNNING_MODELS := puts [running_series r] (OLLAMA_RUNNING_MODELS s),
        OLLAMA_MODEL_MEMORY_BYTES := puts (memory_series r) (OLLAMA_MODEL_MEMORY_BYTES s)\<rparr>)"
  by (simp add: setRunningMetrics_def Let_def gauge_labels_set_one OLLAMA_RUNNING_MODELS_labelNames_def
        OLLAMA_MODEL_MEMORY_BYTES_labelNames_def running_series_def memory_series_def runningName_def)

lemma setAllRunningMetrics_eq:
  "setAllRunningMetrics rs (cur, s) =
     (None, adds (map runningName rs) cur,
      s\<lparr>OLLAMA_RUNNING_MODELS := puts (map running_series rs) (OLLAMA_RUNNING_MODELS s),
        OLLAMA_MODEL_MEMORY_BYTES := puts (concat (map memory_series rs)) (OLLAMA_MODEL_MEMORY_BYTES s)\<rparr>)"
proof (induction rs arbitrary: cur s)
  case Nil
  show ?case by simp
next
  case (Cons r rs)
  obtain k v where i: "running_series r = (k, v)" by (cases "running_series r")
  show ?case
    by (simp add: setRunningMetrics_eq Cons.IH i puts_append)
qed

lemma updateRunningMetrics_try_eq:
  "updateRunningMetrics_try d s =
     (None,
      s\<lparr>OLLAMA_RUNNING_MODELS :=
          puts (map running_series (loaded d))
            (removes (map (\<lambda>n. [n]) (lastRunningModels s)) (OLLAMA_RUNNING_MODELS s)),
        OLLAMA_MODEL_MEMORY_BYTES :=
          puts (concat (map memory_series (loaded d)))
            (removes (map (\<lambda>n. [n]) (lastRunningModels s)) (OLLAMA_MODEL_MEMORY_BYTES s)),
        lastRunningModels := adds (map runningName (loaded d)) []\<rparr>)"
  unfolding updateRunningMetrics_try_def Let_def loaded_def [symmetric]
  by (simp add: clearRunningModels_eq setAllRunningMetrics_eq)

lemma updateRunningMetrics_try_logged:
  "updateRunningMetrics_try d (s\<lparr>logged := l\<rparr>) =
     (None, (snd (updateRunningMetrics_try d s))\<lparr>logged := l\<rparr>)"
  by (simp add: updateRunningMetrics_try_eq)

lemma updateRunningMetrics_eq:
  obtains l where
    "updateRunningMetrics w s = (Inr (fetchRunning w s \<noteq> None), (running_effect w s)\<lparr>logged := l\<rparr>)"
proof -
  obtain l where a: "apiRequest (request_ps w) ''ps'' ''GET'' None s =
      (Inr (fetchRunning w s),
       s\<lparr>requestHistory := requestHistory s @ [baseUrl s @ ''/'' @ ''ps''], logged := l\<rparr>)"
    unfolding fetchRunning_def by (rule apiRequest_fetched)
  have "updateRunningMetrics w s = (Inr (fetchRunning w s \<noteq> None), (running_effect w s)\<lparr>logged := l\<rparr>)"
    by (cases "fetchRunning w s")
      (simp_all add: updateRunningMetrics_def a running_effect_def updateRunningMetrics_try_eq)
  then show thesis by (rule that)
qed

lemma running_effect_logged [simp]:
  "running_effect w (s\<lparr>logged := l\<rparr>) = (running_effect w s)\<lparr>logged := l\<rparr>"
  by (simp add: running_effect_def Let_def updateRunningMetrics_try_eq split: option.splits)



lemma running_effect_inventory_fields [simp]:
  "OLLAMA_MODELS_TOTAL (running_effect w s) = OLLAMA_MODELS_TOTAL s"
  "OLLAMA_MODEL_INFO (running_effect w s) = OLLAMA_MODEL_INFO s"
  "OLLAMA_MODEL_SIZE_BYTES (running_effect w s) = OLLAMA_MODEL_SIZE_BYTES s"
  "OLLAMA_MODEL_MODIFIED_TIMESTAMP (running_effect w s) = OLLAMA_MODEL_MODIFIED_TIMESTAMP s"
  "lastModels (running_effect w s) = lastModels s"
  "baseUrl (running_effect w s) = baseUrl s"
  "apiTimeout (running_effect w s) = apiTimeout s"
  by (simp_all add: running_effect_def Let_def updateRunningMetrics_try_eq split: option.splits)






subsection \<open>The health probe\<close>

lemma probeHealth_eq:
  obtains l where
    "probeHealth w s = (Inr (fetchVersion w s \<noteq> None), (health_effect w s)\<lparr>logged := l\<rparr>)"
proof -
  obtain l where a: "apiRequest (request_version w) ''version'' ''GET'' None s =
      (Inr (fetchVersion w s),
       s\<lparr>requestHistory := requestHistory s @ [baseUrl s @ ''/'' @ ''version''], logged := l\<rparr>)"
    unfolding fetchVersion_def by (rule apiRequest_fetched)
  have "probeHealth w s = (Inr (fetchVersion w s \<noteq> None), (health_effect w s)\<lparr>logged := l\<rparr>)"
    by (cases "fetchVersion w s")
      (simp_all add: probeHealth_def checkOllamaHealth_def a health_effect_def gauge_labels_set_one
         OLLAMA_VERSION_INFO_labelNames_def)
  then show thesis by (rule that)
qed

lemma health_effect_logged [simp]:
  "health_effect w (s\<lparr>logged := l\<rparr>) = (health_effect w s)\<lparr>logged := l\<rparr>"
  by (simp add: health_effect_def split: option.splits)

lemma health_effect_const [simp]:
  "baseUrl (health_effect w s) = baseUrl s"
  "apiTimeout (health_effect w s) = apiTimeout s"
  "lastModels (health_effect w s) = lastModels s"
  "lastRunningModels (health_effect w s) = lastRunningModels s"
  by (simp_all add: health_effect_def)

lemma health_effect_inventory_fields [simp]:
  "OLLAMA_MODELS_TOTAL (health_effect w s) = OLLAMA_MODELS_TOTAL s"
  "OLLAMA_MODEL_INFO (health_effect w s) = OLLAMA_MODEL_INFO s"
  "OLLAMA_MODEL_SIZE_BYTES (health_effect w s) = OLLAMA_MODEL_SIZE_BYTES s"
  "OLLAMA_MODEL_MODIFIED_TIMESTAMP (health_effect w s) = OLLAMA_MODEL_MODIFIED_TIMESTAMP s"
  "OLLAMA_RUNNING_MODELS (health_effect w s) = OLLAMA_RUNNING_MODELS s"
  "OLLAMA_MODEL_MEMORY_BYTES (health_effect w s) = OLLAMA_MODEL_MEMORY_BYTES s"
  by (simp_all add: health_effect_def)

lemma fetch_health_effect [simp]:
  "fetchInventory w (health_effect w' s) = fetchInventory w s"
  "fetchRunning w (health_effect w' s) = fetchRunning w s"
  unfolding fetchInventory_def fetchRunning_def
  by (rule fetched_cong; simp)+

lemma fetch_after_probe [simp]:
  "fetchInventory w (snd (probeHealth w' s)) = fetchInventory w s"
  "fetchRunning w (snd (probeHealth w' s)) = fetchRunning w s"
proof -
  obtain l where "probeHealth w' s = (Inr (fetchVersion w' s \<noteq> None), (health_effect w' s)\<lparr>logged := l\<rparr>)"
    by (rule probeHealth_eq)
  then show "fetchInventory w (snd (probeHealth w' s)) = fetchInventory w s"
    and "fetchRunning w (snd (probeHealth w' s)) = fetchRunning w s"
    by simp_all
qed

lemma inventory_ok_health_effect [simp]: "inventory_ok w (health_effect w' s) = inventory_ok w s"
  by (simp add: inventory_ok_def split: option.splits)

subsection \<open>One cycle, and the loop\<close>

text \<open>
  \<open>updateMetrics\<close> never throws, and the state it leaves is \<open>cycle_effect\<close> up to the log.
\<close>

lemma updateBoth_eq:
  obtains l where
    "updateBoth w True s =
       (Inr (inventory_ok w s \<and> fetchRunning w s \<noteq> None),
        (running_effect w (inventory_effect w s))\<lparr>logged := l\<rparr>)"
proof -
  obtain l1 where m: "updateModelMetrics w s = (Inr (inventory_ok w s), (inventory_effect w s)\<lparr>logged := l1\<rparr>)"
    by (rule updateModelMetrics_eq)
  obtain l2 where "updateRunningMetrics w ((inventory_effect w s)\<lparr>logged := l1\<rparr>) =
      (Inr (fetchRunning w ((inventory_effect w s)\<lparr>logged := l1\<rparr>) \<noteq> None),
       (running_effect w ((inventory_effect w s)\<lparr>logged := l1\<rparr>))\<lparr>logged := l2\<rparr>)"
    by (rule updateRunningMetrics_eq)
  then have r: "updateRunningMetrics w ((inventory_effect w s)\<lparr>logged := l1\<rparr>) =
      (Inr (fetchRunning w s \<noteq> None), (running_effect w (inventory_effect w s))\<lparr>logged := l2\<rparr>)"
    by simp
  let ?s2 = "(running_effect w (inventory_effect w s))\<lparr>logged := l2\<rparr>"
  have "updateBoth w True s =
      (Inr (inventory_ok w s \<and> fetchRunning w s \<noteq> None),
       (running_effect w (inventory_effect w s))\<lparr>logged := l2 @
          [(INFO, ''Updated metrics: '' @ show_nat (length (lastModels ?s2))
                  @ '' total models, '' @ show_nat (length (lastRunningModels ?s2)) @ '' running'')]\<rparr>)"
    by (simp add: updateBoth_def m r logger_def)
  then show thesis by (rule that)
qed

lemma updateMetrics_try_eq:
  obtains l where
    "updateMetrics_try w s = (Inr (scrape_ok w s), (try_effect w s)\<lparr>logged := l\<rparr>)"
proof -
  obtain l0 where p: "probeHealth w s = (Inr (fetchVersion w s \<noteq> None), (health_effect w s)\<lparr>logged := l0\<rparr>)"
    by (rule probeHealth_eq)
  show thesis
  proof (cases "fetchVersion w s")
    case None
    have "updateMetrics_try w s =
        (Inr (scrape_ok w s), (try_effect w s)\<lparr>logged := l0 @ [(WARNING, ''Ollama API is not responding'')]\<rparr>)"
      by (simp add: updateMetrics_try_def p None scrape_ok_def try_effect_def body_effect_def logger_def)
    then show thesis by (rule that)
  next
    case (Some v)
    obtain l1 where "updateBoth w True ((health_effect w s)\<lparr>logged := l0\<rparr>) =
        (Inr (inventory_ok w ((health_effect w s)\<lparr>logged := l0\<rparr>)
              \<and> fetchRunning w ((health_effect w s)\<lparr>logged := l0\<rparr>) \<noteq> None),
         (running_effect w (inventory_effect w ((health_effect w s)\<lparr>logged := l0\<rparr>)))\<lparr>logged := l1\<rparr>)"
      by (rule updateBoth_eq)
    then have b: "updateBoth w True ((health_effect w s)\<lparr>logged := l0\<rparr>) =
        (Inr (inventory_ok w s \<and> fetchRunning w s \<noteq> None),
         (running_effect w (inventory_effect w (health_effect w s)))\<lparr>logged := l1\<rparr>)"
      by simp
    have "updateMetrics_try w s = (Inr (scrape_ok w s), (try_effect w s)\<lparr>logged := l1\<rparr>)"
      by (auto simp add: updateMetrics_try_def p Some b scrape_ok_def try_effect_def body_effect_def)
    then show thesis by (rule that)
  qed
qed

lemma updateMetrics_eq:
  obtains l where "updateMetrics w s = (None, (cycle_effect w s)\<lparr>logged := l\<rparr>)"
proof -
  obtain l where t: "updateMetrics_try w s = (Inr (scrape_ok w s), (try_effect w s)\<lparr>logged := l\<rparr>)"
    by (rule updateMetrics_try_eq)
  have "updateMetrics w s = (None, (cycle_effect w s)\<lparr>logged := l\<rparr>)"
    by (simp add: updateMetrics_def t recordScrape_def cycle_effect_def bump_def counter_labels_inc_def
          getLabels_def Let_def OLLAMA_EXPORTER_SCRAPES_TOTAL_labelNames_def)
  then show thesis by (rule that)
qed

lemma health_step_ok_iff: "health_step_ok w s \<longleftrightarrow> fetchVersion w s \<noteq> None"
proof -
  obtain l where "probeHealth w s = (Inr (fetchVersion w s \<noteq> None), (health_effect w s)\<lparr>logged := l\<rparr>)"
    by (rule probeHealth_eq)
  then show ?thesis by (simp add: health_step_ok_def)
qed

lemma inventory_step_ok_iff: "inventory_step_ok w s \<longleftrightarrow> fetchVersion w s \<noteq> None \<and> inventory_ok w s"
proof -
  obtain l where p: "probeHealth w s = (Inr (fetchVersion w s \<noteq> None), (health_effect w s)\<lparr>logged := l\<rparr>)"
    by (rule probeHealth_eq)
  obtain l1 where "updateModelMetrics w ((health_effect w s)\<lparr>logged := l\<rparr>) =
      (Inr (inventory_ok w ((health_effect w s)\<lparr>logged := l\<rparr>)),
       (inventory_effect w ((health_effect w s)\<lparr>logged := l\<rparr>))\<lparr>logged := l1\<rparr>)"
    by (rule updateModelMetrics_eq)
  then show ?thesis
    by (simp add: inventory_step_ok_def health_step_ok_iff p)
qed

lemma running_step_ok_iff: "running_step_ok w s \<longleftrightarrow> fetchVersion w s \<noteq> None \<and> fetchRunning w s \<noteq> None"
proof -
  obtain l where p: "probeHealth w s = (Inr (fetchVersion w s \<noteq> None), (health_effect w s)\<lparr>logged := l\<rparr>)"
    by (rule probeHealth_eq)
  obtain l1 where m: "updateModelMetrics w ((health_effect w s)\<lparr>logged := l\<rparr>) =
      (Inr (inventory_ok w ((health_effect w s)\<lparr>logged := l\<rparr>)),
       (inventory_effect w ((health_effect w s)\<lparr>logged := l\<rparr>))\<lparr>logged := l1\<rparr>)"
    by (rule updateModelMetrics_eq)
  let ?s2 = "(inventory_effect w ((health_effect w s)\<lparr>logged := l\<rparr>))\<lparr>logged := l1\<rparr>"
  obtain l2 where "updateRunningMetrics w ?s2 =
      (Inr (fetchRunning w ?s2 \<noteq> None), (running_effect w ?s2)\<lparr>logged := l2\<rparr>)"
    by (rule updateRunningMetrics_eq)
  then show ?thesis
    by (simp add: running_step_ok_def health_step_ok_iff p m)
qed

lemma scrape_ok_iff:
  "scrape_ok w s \<longleftrightarrow> health_step_ok w s \<and> inventory_step_ok w s \<and> running_step_ok w s"
  by (auto simp add: scrape_ok_def health_step_ok_iff inventory_step_ok_iff running_step_ok_iff)

lemma recordScrape_caught:
  "recordScrape (Inl e, s) =
     (None, s\<lparr>logged := logged s @ [(ERROR, ''Error in metrics update: '' @ exn_string e)],
              OLLAMA_EXPORTER_SCRAPES_TOTAL := bump ''error'' (OLLAMA_EXPORTER_SCRAPES_TOTAL s)\<rparr>)"
  by (simp add: recordScrape_def logger_def bump_def counter_labels_inc_def getLabels_def
        OLLAMA_EXPORTER_SCRAPES_TOTAL_labelNames_def Let_def)

lemma scrape_ok_logged [simp]: "scrape_ok w (s\<lparr>logged := l\<rparr>) = scrape_ok w s"
  by (simp add: scrape_ok_def)

lemma body_effect_logged [simp]:
  "body_effect w (s\<lparr>logged := l\<rparr>) = (body_effect w s)\<lparr>logged := l\<rparr>"
  by (simp add: body_effect_def)

lemma try_effect_logged [simp]:
  "try_effect w (s\<lparr>logged := l\<rparr>) = (try_effect w s)\<lparr>logged := l\<rparr>"
  by (simp add: try_effect_def)

lemma cycle_effect_logged [simp]:
  "cycle_effect w (s\<lparr>logged := l\<rparr>) = (cycle_effect w s)\<lparr>logged := l\<rparr>"
  by (simp add: cycle_effect_def)

lemma scrapes_logged [simp]:
  "scrapes ws (s\<lparr>logged := l\<rparr>) = (scrapes ws s)\<lparr>logged := l\<rparr>"
  by (induction ws arbitrary: s) simp_all

lemma metricsLoop_eq:
  obtains l where "metricsLoop ws s = (scrapes ws s)\<lparr>logged := l\<rparr>"
proof -
  have "\<exists>l. metricsLoop ws s = (scrapes ws s)\<lparr>logged := l\<rparr>"
  proof (induction ws arbitrary: s)
    case Nil
    have "metricsLoop [] s = (scrapes [] s)\<lparr>logged := logged s\<rparr>" by simp
    then show ?case by blast
  next
    case (Cons w ws)
    obtain l where u: "updateMetrics w s = (None, (cycle_effect w s)\<lparr>logged := l\<rparr>)"
      by (rule updateMetrics_eq)
    obtain l' where "metricsLoop ws ((cycle_effect w s)\<lparr>logged := l\<rparr>) =
        (scrapes ws ((cycle_effect w s)\<lparr>logged := l\<rparr>))\<lparr>logged := l'\<rparr>"
      using Cons.IH by blast
    then have "metricsLoop (w # ws) s = (scrapes (w # ws) s)\<lparr>logged := l'\<rparr>"
      by (simp add: u)
    then show ?case by blast
  qed
  then show thesis using that by blast
qed

lemmas effect_defs = cycle_effect_def try_effect_def body_effect_def health_effect_def running_effect_def
  inventory_effect_def Let_def updateModelMetrics_try_eq updateRunningMetrics_try_eq

lemma body_effect_scrapes [simp]:
  "OLLAMA_EXPORTER_SCRAPES_TOTAL (try_effect w s) = OLLAMA_EXPORTER_SCRAPES_TOTAL s"
  by (simp add: try_effect_def body_effect_def health_effect_def running_effect_def inventory_effect_def
        Let_def updateModelMetrics_try_eq updateRunningMetrics_try_eq split: option.splits)

lemma cycle_effect_const [simp]:
  "baseUrl (cycle_effect w s) = baseUrl s"
  "apiTimeout (cycle_effect w s) = apiTimeout s"
  "EXPORTER_INFO (cycle_effect w s) = EXPORTER_INFO s"
  by (simp_all add: cycle_effect_def try_effect_def body_effect_def running_effect_def
        inventory_effect_def Let_def updateModelMetrics_try_eq updateRunningMetrics_try_eq health_effect_def
        split: option.splits)


lemma cycle_effect_last_scrape:
  "OLLAMA_EXPORTER_LAST_SCRAPE_TIMESTAMP (cycle_effect w s) =
     (if scrape_ok w s then gauge_set (Num (Date_now w / 1000)) (OLLAMA_EXPORTER_LAST_SCRAPE_TIMESTAMP s)
      else OLLAMA_EXPORTER_LAST_SCRAPE_TIMESTAMP s)"
  by (simp add: effect_defs split: option.splits)

lemma cycle_effect_unhealthy:
  "fetchVersion w s = None \<Longrightarrow>
   cycle_effect w s =
     s\<lparr>requestHistory := requestHistory s @ [baseUrl s @ ''/version''],
       OLLAMA_UP := gauge_set (Num 0) (OLLAMA_UP s),
       OLLAMA_EXPORTER_SCRAPES_TOTAL := bump ''error'' (OLLAMA_EXPORTER_SCRAPES_TOTAL s)\<rparr>"
  by (simp add: effect_defs scrape_ok_def)





section \<open>Reachable states\<close>

text \<open>
  The series of the two running-model gauges always belong to names of the running
  snapshot, so the unconditional removal empties both gauges.
\<close>

lemma running_tracked_logged [simp]: "running_tracked (s\<lparr>logged := l\<rparr>) = running_tracked s"
  by (simp add: running_tracked_def)






section \<open>A cycle against the same responses\<close>




lemma exposition_logged [simp]:
  "exposition_modulo_time_and_count (s\<lparr>logged := l\<rparr>) = exposition_modulo_time_and_count s"
  by (simp add: exposition_modulo_time_and_count_def)


section \<open>The scenarios evaluated\<close>

lemma exporter0_eq:
  "exporter0 =
     \<lparr>baseUrl = ''http://localhost:11434/api'', apiTimeout = 30000, lastModels = [],
      lastRunningModels = [],
      EXPORTER_INFO = [([''1.0.0'', ''localhost:11434'', ''v24.0.0''], Num 1)],
      OLLAMA_UP = [([], Num 0)], OLLAMA_VERSION_INFO = [], OLLAMA_MODELS_TOTAL = [([], Num 0)],
      OLLAMA_MODEL_INFO = [], OLLAMA_MODEL_SIZE_BYTES = [], OLLAMA_MODEL_MODIFIED_TIMESTAMP = [],
      OLLAMA_RUNNING_MODELS = [], OLLAMA_MODEL_MEMORY_BYTES = [],
      OLLAMA_EXPORTER_SCRAPE_DURATION = [], OLLAMA_EXPORTER_SCRAPES_TOTAL = [],
      OLLAMA_EXPORTER_LAST_SCRAPE_TIMESTAMP = [([], Num 0)], logged = [], requestHistory = []\<rparr>"
  by (simp add: exporter0_def OllamaExporter_def gauge_labels_set_def getLabels_def
        EXPORTER_INFO_labelNames_def VERSION_def)


lemma fetch_unreachable [simp]:
  "fetchVersion unreachable s = None"
  "fetchInventory unreachable s = None"
  "fetchRunning unreachable s = None"
  by (simp_all add: fetchVersion_def fetchInventory_def fetchRunning_def fetched_def apiRequest_def
        apiRequest_try_def unreachable_def no_response_def Let_def)

lemma fetch_serving [simp]:
  "fetchVersion (serving ms rs) s = Some \<lparr>version = Some ''0.1.15''\<rparr>"
  "fetchInventory (serving ms rs) s = Some \<lparr>tags_models = Some ms\<rparr>"
  "fetchRunning (serving ms rs) s = Some \<lparr>ps_models = Some rs\<rparr>"
  by (simp_all add: fetchVersion_def fetchInventory_def fetchRunning_def fetched_def apiRequest_def
        apiRequest_try_def serving_def respond_def Let_def)

lemma serving_fields [simp]:
  "Date_now (serving ms rs) = 1702000000000"
  "Date_getTime (serving ms rs) = parse_date"
  "elapsed_list_models (serving ms rs) = 1 / 100"
  "elapsed_list_running (serving ms rs) = 1 / 50"
  by (simp_all add: serving_def)

lemma scenario_fetches [simp]:
  "fetchVersion scenario_B s = Some \<lparr>version = Some ''0.1.15''\<rparr>"
  "fetchInventory scenario_B s =
     Some \<lparr>tags_models = Some [installed ''llama2:7b'' 3826793677 ''2023-12-07T09:32:18.757Z'']\<rparr>"
  "fetchRunning scenario_B s = Some \<lparr>ps_models = Some [running ''llama2:7b'' 4096000000]\<rparr>"
  "fetchVersion scenario_C_first s = Some \<lparr>version = Some ''0.1.15''\<rparr>"
  "fetchInventory scenario_C_first s =
     Some \<lparr>tags_models = Some [installed ''A'' 5 ''2023-12-07T09:32:18.757Z'']\<rparr>"
  "fetchRunning scenario_C_first s = Some \<lparr>ps_models = Some []\<rparr>"
  "fetchVersion scenario_C_second s = Some \<lparr>version = Some ''0.1.15''\<rparr>"
  "fetchInventory scenario_C_second s =
     Some \<lparr>tags_models = Some [installed ''B'' 6 ''2023-12-07T09:32:18.757Z'']\<rparr>"
  "fetchRunning scenario_C_second s = Some \<lparr>ps_models = Some []\<rparr>"
  by (simp_all add: scenario_B_def scenario_C_first_def scenario_C_second_def)

lemma scenario_fields [simp]:
  "Date_now scenario_B = 1702000000000"
  "Date_getTime scenario_B = parse_date"
  "Date_now scenario_C_first = 1702000000000"
  "Date_getTime scenario_C_first = parse_date"
  "Date_now scenario_C_second = 1702000000000"
  "Date_getTime scenario_C_second = parse_date"
  by (simp_all add: scenario_B_def scenario_C_first_def scenario_C_second_def)

lemmas scenario_defs = effect_defs scrape_ok_def inventory_ok_def exporter0_eq installed_def running_def
  inventory_def loaded_def modelName_def runningName_def info_series_def size_series_def
  timestamp_series_def running_series_def memory_series_def new_Map_def removes_def adds_def Set_add_def
  gauge_set_def bump_def getTime_def parse_date_def


lemma scenario_C_states:
  "lastModels (cycle_effect scenario_C_first exporter0) =
     [(''A'', installed ''A'' 5 ''2023-12-07T09:32:18.757Z'')]"
  "OLLAMA_MODELS_TOTAL (cycle_effect scenario_C_first exporter0) = [([], Num 1)]"
  "OLLAMA_MODEL_INFO (cycle_effect scenario_C_first exporter0) =
     [([''A'', ''llama'', ''gguf'', ''7B'', ''Q4_0'', ''unknown''], Num 1)]"
  "OLLAMA_MODEL_SIZE_BYTES (cycle_effect scenario_C_first exporter0) = [([''A''], Num 5)]"
  "OLLAMA_EXPORTER_SCRAPES_TOTAL (cycle_effect scenario_C_first exporter0) = [([''success''], 1)]"
  by (simp_all add: scenario_defs)

lemma scenario_C_second_not_ok:
  "\<not> inventory_ok scenario_C_second (cycle_effect scenario_C_first exporter0)"
  by (simp add: inventory_ok_def scenario_C_states inventory_def modelName_def installed_def)

section \<open>The claims\<close>

text \<open>
  C1 does not hold of the code. \<open>OLLAMA_MODEL_INFO\<close> has six labels and
  \<open>OLLAMA_MODEL_INFO.remove(oldModel)\<close> passes one value, so the call throws instead of
  removing. In scenario C (model \<open>A\<close> at the first cycle, only model \<open>B\<close> at the second) the
  second inventory update is caught by its own \<open>catch\<close> and returns false: the size series of
  \<open>A\<close> is gone, its \<open>model_info\<close> series is still in the registry, the snapshot still holds \<open>A\<close>
  and the cycle counts as an error.
\<close>

theorem vanished_model_keeps_its_info_series:
  "set (map fst (lastModels (metricsLoop [scenario_C_first] exporter0))) = {''A''} \<and>
   fetchInventory scenario_C_second (metricsLoop [scenario_C_first] exporter0) =
     Some \<lparr>tags_models = Some [installed ''B'' 6 ''2023-12-07T09:32:18.757Z'']\<rparr> \<and>
   \<not> inventory_step_ok scenario_C_second (metricsLoop [scenario_C_first] exporter0) \<and>
   OLLAMA_MODEL_INFO (metricsLoop [scenario_C_first, scenario_C_second] exporter0) =
     [([''A'', ''llama'', ''gguf'', ''7B'', ''Q4_0'', ''unknown''], Num 1)] \<and>
   OLLAMA_MODEL_SIZE_BYTES (metricsLoop [scenario_C_first, scenario_C_second] exporter0) = [] \<and>
   map fst (lastModels (metricsLoop [scenario_C_first, scenario_C_second] exporter0)) = [''A''] \<and>
   OLLAMA_EXPORTER_SCRAPES_TOTAL (metricsLoop [scenario_C_first, scenario_C_second] exporter0) =
     [([''success''], 1), ([''error''], 1)]"
proof -
  obtain l where m: "metricsLoop [scenario_C_first] exporter0 = (scrapes [scenario_C_first] exporter0)\<lparr>logged := l\<rparr>"
    by (rule metricsLoop_eq)
  obtain l' where m': "metricsLoop [scenario_C_first, scenario_C_second] exporter0 =
      (scrapes [scenario_C_first, scenario_C_second] exporter0)\<lparr>logged := l'\<rparr>"
    by (rule metricsLoop_eq)
  have c: "\<not> inventory_step_ok scenario_C_second (metricsLoop [scenario_C_first] exporter0)"
    unfolding m by (simp add: inventory_step_ok_iff scenario_C_second_not_ok)
  have d: "set (map fst (lastModels (metricsLoop [scenario_C_first] exporter0))) = {''A''}"
    unfolding m by (simp add: scenario_C_states)
  have e: "OLLAMA_MODEL_INFO (metricsLoop [scenario_C_first, scenario_C_second] exporter0) =
     [([''A'', ''llama'', ''gguf'', ''7B'', ''Q4_0'', ''unknown''], Num 1)] \<and>
   OLLAMA_MODEL_SIZE_BYTES (metricsLoop [scenario_C_first, scenario_C_second] exporter0) = [] \<and>
   map fst (lastModels (metricsLoop [scenario_C_first, scenario_C_second] exporter0)) = [''A''] \<and>
   OLLAMA_EXPORTER_SCRAPES_TOTAL (metricsLoop [scenario_C_first, scenario_C_second] exporter0) =
     [([''success''], 1), ([''error''], 1)]"
    unfolding m' by (simp add: scenario_defs)
  from c d e show ?thesis by simp
qed

text \<open>
  C2 does not hold of the code. \<open>new Date(modifiedAt)\<close> does not throw on a string it cannot
  parse: it yields an invalid date whose time value is \<open>NaN\<close>, and \<open>set(NaN)\<close> is accepted, so
  the \<open>catch\<close> with its debug message is never entered. For a record whose \<open>modified_at\<close> is
  \<open>not a date\<close> the loop body returns normally, logs nothing and leaves a
  model-modified-timestamp series of value \<open>NaN\<close> for the model.
\<close>

theorem unparseable_timestamp_is_exposed:
  "Date_getTime (serving [installed ''B'' 6 ''not a date''] []) ''not a date'' = None \<and>
   setModelMetrics (serving [installed ''B'' 6 ''not a date''] []) (installed ''B'' 6 ''not a date'') exporter0 =
     (None,
      exporter0\<lparr>OLLAMA_MODEL_INFO := [([''B'', ''llama'', ''gguf'', ''7B'', ''Q4_0'', ''unknown''], Num 1)],
                OLLAMA_MODEL_SIZE_BYTES := [([''B''], Num 6)],
                OLLAMA_MODEL_MODIFIED_TIMESTAMP := [([''B''], NaN)]\<rparr>) \<and>
   OLLAMA_MODEL_MODIFIED_TIMESTAMP (metricsLoop [serving [installed ''B'' 6 ''not a date''] []] exporter0) =
     [([''B''], NaN)] \<and>
   OLLAMA_EXPORTER_SCRAPES_TOTAL (metricsLoop [serving [installed ''B'' 6 ''not a date''] []] exporter0) =
     [([''success''], 1)]"
proof -
  obtain l where m: "metricsLoop [serving [installed ''B'' 6 ''not a date''] []] exporter0 =
      (scrapes [serving [installed ''B'' 6 ''not a date''] []] exporter0)\<lparr>logged := l\<rparr>"
    by (rule metricsLoop_eq)
  have a: "Date_getTime (serving [installed ''B'' 6 ''not a date''] []) ''not a date'' = None"
    by (simp add: parse_date_def)
  have b: "setModelMetrics (serving [installed ''B'' 6 ''not a date''] []) (installed ''B'' 6 ''not a date'') exporter0 =
     (None,
      exporter0\<lparr>OLLAMA_MODEL_INFO := [([''B'', ''llama'', ''gguf'', ''7B'', ''Q4_0'', ''unknown''], Num 1)],
                OLLAMA_MODEL_SIZE_BYTES := [([''B''], Num 6)],
                OLLAMA_MODEL_MODIFIED_TIMESTAMP := [([''B''], NaN)]\<rparr>)"
    by (simp add: setModelMetrics_eq info_series_def size_series_def timestamp_series_def modelName_def
          installed_def getTime_def parse_date_def exporter0_eq)
  have c: "OLLAMA_MODEL_MODIFIED_TIMESTAMP (metricsLoop [serving [installed ''B'' 6 ''not a date''] []] exporter0) =
     [([''B''], NaN)] \<and>
   OLLAMA_EXPORTER_SCRAPES_TOTAL (metricsLoop [serving [installed ''B'' 6 ''not a date''] []] exporter0) =
     [([''success''], 1)]"
    unfolding m by (simp add: scenario_defs)
  from a b c show ?thesis by blast
qed



text \<open>
  C4. Every scrape cycle increments the scrapes-total counter exactly once: under the status
  \<open>success\<close> when the health probe, the inventory update and the running update all
  returned true, under \<open>error\<close> otherwise; the value of every other label set is unchanged
  and \<open>updateMetrics\<close> itself never throws. The same holds of the \<open>catch\<close> at the cycle
  boundary, whatever exception and state reach it: one increment under \<open>error\<close>.
\<close>

theorem scrapes_total_once:
  "fst (updateMetrics w s) = None \<and>
   (\<forall>k. counter_value (OLLAMA_EXPORTER_SCRAPES_TOTAL (snd (updateMetrics w s))) k =
        counter_value (OLLAMA_EXPORTER_SCRAPES_TOTAL s) k +
        (if k = [if health_step_ok w s \<and> inventory_step_ok w s \<and> running_step_ok w s
                 then ''success'' else ''error'']
         then 1 else 0)) \<and>
   (\<forall>e s1 k. fst (recordScrape (Inl e, s1)) = None \<and>
        counter_value (OLLAMA_EXPORTER_SCRAPES_TOTAL (snd (recordScrape (Inl e, s1)))) k =
        counter_value (OLLAMA_EXPORTER_SCRAPES_TOTAL s1) k + (if k = [''error''] then 1 else 0))"
proof -
  obtain l where u: "updateMetrics w s = (None, (cycle_effect w s)\<lparr>logged := l\<rparr>)"
    by (rule updateMetrics_eq)
  have "OLLAMA_EXPORTER_SCRAPES_TOTAL (snd (updateMetrics w s)) =
      bump (if scrape_ok w s then ''success'' else ''error'') (OLLAMA_EXPORTER_SCRAPES_TOTAL s)"
    by (simp add: u cycle_effect_def)
  then show ?thesis
    by (simp add: u counter_value_bump recordScrape_caught scrape_ok_iff)
qed

theorem scrapes_total_once_witness:
  "health_step_ok scenario_B exporter0 \<and>
   counter_value (OLLAMA_EXPORTER_SCRAPES_TOTAL (snd (updateMetrics
     scenario_B exporter0))) [''success''] = 1 \<and>
   counter_value (OLLAMA_EXPORTER_SCRAPES_TOTAL (snd (updateMetrics
     scenario_B exporter0))) [''error''] = 0 \<and>
   counter_value (OLLAMA_EXPORTER_SCRAPES_TOTAL (snd (updateMetrics unreachable exporter0))) [''error''] = 1 \<and>
   counter_value (OLLAMA_EXPORTER_SCRAPES_TOTAL (snd (recordScrape (Inl (NonError ''boom''), exporter0))))
     [''error''] = 1"
  using scrapes_total_once [of scenario_B exporter0]
    scrapes_total_once [of unreachable exporter0]
  by (simp add: health_step_ok_iff inventory_step_ok_iff running_step_ok_iff inventory_ok_def
        exporter0_eq counter_value_def)



text \<open>
  C6. The last-scrape-timestamp gauge is set (to the clock reading in seconds) in a cycle
  only if the health probe, the inventory update and the running update all succeeded; in
  every other cycle, a probe that found the server down included, it keeps its entries.
\<close>

theorem last_scrape_timestamp_only_on_success:
  "OLLAMA_EXPORTER_LAST_SCRAPE_TIMESTAMP (snd (updateMetrics w s)) =
     (if health_step_ok w s \<and> inventory_step_ok w s \<and> running_step_ok w s
      then gauge_set (Num (Date_now w / 1000)) (OLLAMA_EXPORTER_LAST_SCRAPE_TIMESTAMP s)
      else OLLAMA_EXPORTER_LAST_SCRAPE_TIMESTAMP s)"
proof -
  obtain l where u: "updateMetrics w s = (None, (cycle_effect w s)\<lparr>logged := l\<rparr>)"
    by (rule updateMetrics_eq)
  show ?thesis
    by (simp add: u cycle_effect_last_scrape scrape_ok_iff)
qed

theorem last_scrape_timestamp_only_on_success_witness:
  "OLLAMA_EXPORTER_LAST_SCRAPE_TIMESTAMP (snd (updateMetrics
     scenario_B exporter0)) = [([], Num 1702000000)] \<and>
   OLLAMA_EXPORTER_LAST_SCRAPE_TIMESTAMP (snd (updateMetrics unreachable exporter0)) = [([], Num 0)]"
  using last_scrape_timestamp_only_on_success [of scenario_B exporter0]
    last_scrape_timestamp_only_on_success [of unreachable exporter0]
  by (simp add: health_step_ok_iff inventory_step_ok_iff running_step_ok_iff inventory_ok_def
        exporter0_eq gauge_set_def)

text \<open>
  C7. When the health probe gets the failure \<open>null\<close> from the version call, the cycle sets
  the server-up gauge to 0, increments the scrapes-total counter under \<open>error\<close> and under
  nothing else, and the only request made to the HTTP client is the one for the version:
  neither the inventory nor the running-models endpoint is called.
\<close>

theorem unhealthy_probe_short_circuits:
  "fetchVersion w s = None \<Longrightarrow>
   map_of (OLLAMA_UP (snd (updateMetrics w s))) [] = Some (Num 0) \<and>
   (\<forall>k. counter_value (OLLAMA_EXPORTER_SCRAPES_TOTAL (snd (updateMetrics w s))) k =
        counter_value (OLLAMA_EXPORTER_SCRAPES_TOTAL s) k + (if k = [''error''] then 1 else 0)) \<and>
   requestHistory (snd (updateMetrics w s)) = requestHistory s @ [baseUrl s @ ''/version'']"
proof -
  assume down: "fetchVersion w s = None"
  obtain l where u: "updateMetrics w s = (None, (cycle_effect w s)\<lparr>logged := l\<rparr>)"
    by (rule updateMetrics_eq)
  show ?thesis
    by (simp add: u cycle_effect_unhealthy [OF down] counter_value_bump gauge_set_def AList.update_conv')
qed

theorem unhealthy_probe_short_circuits_witness:
  "fetchVersion unreachable exporter0 = None \<and>
   map_of (OLLAMA_UP (snd (updateMetrics unreachable exporter0))) [] = Some (Num 0) \<and>
   counter_value (OLLAMA_EXPORTER_SCRAPES_TOTAL (snd (updateMetrics unreachable exporter0))) [''error''] = 1 \<and>
   counter_value (OLLAMA_EXPORTER_SCRAPES_TOTAL (snd (updateMetrics unreachable exporter0))) [''success''] = 0 \<and>
   requestHistory (snd (updateMetrics unreachable exporter0)) = [''http://localhost:11434/api/version'']"
  using unhealthy_probe_short_circuits [of unreachable exporter0]
  by (simp add: exporter0_eq counter_value_def)

text \<open>
  C8. \<open>apiRequest\<close> returns to its caller for every HTTP client, also one that throws, and
  for every endpoint and response type: no exception passes it. Over \<open>FetchHttpClient\<close>, a
  fetch that rejects (a network error, an abort), a response whose status is not in 200 to
  299, a reply that comes no sooner than the timeout, and an unreachable server all give the
  caller the same value \<open>null\<close>.
\<close>

theorem upstream_failures_collapse:
  "(\<exists>r. fst (apiRequest request endpoint m d s) = Inr r) \<and>
   ((\<forall>url init. fetchFn url init = Inl e) \<longrightarrow>
      fst (apiRequest (FetchHttpClient fetchFn) endpoint m d s) = Inr None) \<and>
   (\<not> (200 \<le> st \<and> st \<le> 299) \<longrightarrow>
      fst (apiRequest (FetchHttpClient (\<lambda>url init. Inr (server_response st reason parsed))) endpoint m d s)
        = Inr None) \<and>
   (apiTimeout s \<noteq> 0 \<and> apiTimeout s \<le> latency \<longrightarrow>
      fst (apiRequest (FetchHttpClient (runtime_fetch (Replies latency response))) endpoint m d s)
        = Inr None) \<and>
   fst (apiRequest (FetchHttpClient (runtime_fetch Unreachable)) endpoint m d s) = Inr None"
proof -
  have a: "\<exists>r. fst (apiRequest request endpoint m d s) = Inr r"
    by (rule apiRequest_no_throw)
  have b: "(\<forall>url init. fetchFn url init = Inl e) \<longrightarrow>
      fst (apiRequest (FetchHttpClient fetchFn) endpoint m d s) = Inr None"
    by (simp add: apiRequest_def apiRequest_try_def FetchHttpClient_def FetchHttpClient_request_def Let_def)
  have c: "\<not> (200 \<le> st \<and> st \<le> 299) \<longrightarrow>
      fst (apiRequest (FetchHttpClient (\<lambda>url init. Inr (server_response st reason parsed))) endpoint m d s)
        = Inr None"
    by (simp add: apiRequest_def apiRequest_try_def FetchHttpClient_def FetchHttpClient_request_def Let_def
          server_response_def)
  have t: "apiTimeout s \<noteq> 0 \<and> apiTimeout s \<le> latency \<longrightarrow>
      fst (apiRequest (FetchHttpClient (runtime_fetch (Replies latency response))) endpoint m d s)
        = Inr None"
    by (simp add: apiRequest_def apiRequest_try_def FetchHttpClient_def FetchHttpClient_request_def Let_def
          runtime_fetch_def fetchOptions_def)
  have u: "fst (apiRequest (FetchHttpClient (runtime_fetch Unreachable)) endpoint m d s) = Inr None"
    by (simp add: apiRequest_def apiRequest_try_def FetchHttpClient_def FetchHttpClient_request_def Let_def
          runtime_fetch_def)
  from a b c t u show ?thesis by blast
qed

theorem upstream_failures_collapse_witness:
  "fst (apiRequest (FetchHttpClient (\<lambda>url init. Inl (JsError ''fetch failed'')))
          ''version'' ''GET'' None exporter0) = (Inr None :: exn + OllamaVersionResponse option) \<and>
   fst (apiRequest (FetchHttpClient (\<lambda>url init. Inr (server_response 500 ''Internal Server Error'' (Inr None))))
          ''tags'' ''GET'' None exporter0) = (Inr None :: exn + OllamaTagsResponse option) \<and>
   (apiTimeout exporter0 \<noteq> 0 \<and> apiTimeout exporter0 \<le> 30000) \<and>
   fst (apiRequest (FetchHttpClient (runtime_fetch (Replies 30000 (server_response 200 ''OK'' (Inr None)))))
          ''ps'' ''GET'' None exporter0) = (Inr None :: exn + OllamaPsResponse option)"
proof -
  have a: "fst (apiRequest (FetchHttpClient (\<lambda>url init. Inl (JsError ''fetch failed'')))
          ''version'' ''GET'' None exporter0) = (Inr None :: exn + OllamaVersionResponse option)"
    using upstream_failures_collapse
      [where fetchFn = "\<lambda>url init. (Inl (JsError ''fetch failed'') :: exn + OllamaVersionResponse HttpResponse)"
        and e = "JsError ''fetch failed''" and endpoint = "''version''" and m = "''GET''" and d = None
        and s = exporter0]
    by blast
  have b: "fst (apiRequest (FetchHttpClient (\<lambda>url init. Inr (server_response 500 ''Internal Server Error'' (Inr None))))
          ''tags'' ''GET'' None exporter0) = (Inr None :: exn + OllamaTagsResponse option)"
    using upstream_failures_collapse
      [where st = 500 and reason = "''Internal Server Error''"
        and parsed = "Inr None :: exn + OllamaTagsResponse option"
        and endpoint = "''tags''" and m = "''GET''" and d = None and s = exporter0]
    by simp blast
  have t: "apiTimeout exporter0 \<noteq> 0 \<and> apiTimeout exporter0 \<le> 30000"
    by (simp add: exporter0_eq)
  have c: "fst (apiRequest (FetchHttpClient (runtime_fetch (Replies 30000 (server_response 200 ''OK'' (Inr None)))))
          ''ps'' ''GET'' None exporter0) = (Inr None :: exn + OllamaPsResponse option)"
    using t upstream_failures_collapse
      [where latency = 30000
        and response = "server_response 200 ''OK'' (Inr None) :: OllamaPsResponse HttpResponse"
        and endpoint = "''ps''" and m = "''GET''" and d = None and s = exporter0]
    by blast
  from a b t c show ?thesis by blast
qed






end
